theory Spec2Isabelle
  imports Main "HOL-Library.Word"
begin

unbundle bit_operations_syntax

section \<open>NEORV32 runtime environment (\<^verbatim>\<open>sw/lib/source/neorv32_rte.c\<close>)\<close>

text \<open>
  The runtime environment (RTE) of the NEORV32 RISC-V processor: setup, installation of
  second-level trap handlers, the first-level trap handler, access to the saved register
  context, and the default debug handler with its hexadecimal printer.

  All values are 32-bit machine words. A C \<^verbatim>\<open>int\<close> is a 32-bit word read in two's
  complement (\<open>sint\<close>) where its bits matter (the register number of the context
  accessors) and a mathematical integer where only small values occur (loop counters,
  the status returned by the installer).
\<close>

type_synonym u32 = "32 word"
type_synonym c_int = "32 word"

subsection \<open>What the file takes from \<^verbatim>\<open>neorv32.h\<close>\<close>

text \<open>
  The header is not part of the sources at hand. Its symbolic names are kept as
  datatypes; the numeric values behind them, the compile-time switches and the addresses
  the linker assigns are the fields of a \<open>platform\<close> record, so every result below holds
  for any choice of them unless a hypothesis says otherwise.
\<close>

datatype csr_id =
    CSR_MSTATUS | CSR_MIE | CSR_MTVEC | CSR_MSCRATCH | CSR_MEPC
  | CSR_MCAUSE | CSR_MTVAL | CSR_MTINST | CSR_MHARTID

datatype trap_code =
    TRAP_CODE_I_ACCESS | TRAP_CODE_I_ILLEGAL | TRAP_CODE_I_MISALIGNED
  | TRAP_CODE_BREAKPOINT | TRAP_CODE_L_MISALIGNED | TRAP_CODE_L_ACCESS
  | TRAP_CODE_S_MISALIGNED | TRAP_CODE_S_ACCESS | TRAP_CODE_UENV_CALL
  | TRAP_CODE_MENV_CALL | TRAP_CODE_DOUBLE_TRAP
  | TRAP_CODE_MSI | TRAP_CODE_MTI | TRAP_CODE_MEI
  | TRAP_CODE_FIRQ nat

datatype uart_call = Putc char | Puts string

record platform =
  riscv_32e :: bool
    \<comment> \<open>\<^verbatim>\<open>__riscv_32e\<close> is defined: reduced register file x0..x15\<close>
  riscv_c :: bool
    \<comment> \<open>\<^verbatim>\<open>__riscv_c\<close> is defined: compressed instructions are supported\<close>
  trap_code_val :: "trap_code \<Rightarrow> u32"
    \<comment> \<open>the values of the \<^verbatim>\<open>TRAP_CODE_*\<close> enumeration\<close>
  mstatus_mpp_l :: nat
  mstatus_mpp_h :: nat
    \<comment> \<open>\<^verbatim>\<open>CSR_MSTATUS_MPP_L\<close> and \<^verbatim>\<open>CSR_MSTATUS_MPP_H\<close>, bit positions in \<^verbatim>\<open>mstatus\<close>\<close>
  rte_core_addr :: u32
    \<comment> \<open>\<^verbatim>\<open>(uint32_t)(&neorv32_rte_core)\<close>\<close>
  debug_handler_addr :: u32
    \<comment> \<open>\<^verbatim>\<open>(uint32_t)(&neorv32_rte_debug_handler)\<close>\<close>
  uart0_available :: int
    \<comment> \<open>what \<^verbatim>\<open>neorv32_uart0_available()\<close> returns; zero when UART0 is not implemented\<close>
  shr_out_of_range :: "u32 \<Rightarrow> int \<Rightarrow> u32"
    \<comment> \<open>the value of \<^verbatim>\<open>num >> n\<close> for \<open>n\<close> outside 0..31, which C leaves open\<close>

subsection \<open>Machine state\<close>

text \<open>
  \<open>vector_lut\<close> is the storage of \<^verbatim>\<open>__neorv32_rte_vector_lut[2][32]\<close>, keyed by the byte
  offset from the start of the table. Every access goes through the array with a stride of
  four bytes, so two accesses hit the same word or disjoint words. \<open>mem\<close> is the data
  memory as the word load and store primitives see it, keyed by byte address; \<open>xreg\<close> is
  the general-purpose register file; \<open>uart0_out\<close> lists the calls made to the UART0
  driver, latest last.
\<close>

record rte_state =
  csrs :: "csr_id \<Rightarrow> u32"
  vector_lut :: "u32 \<Rightarrow> u32"
  mem :: "u32 \<Rightarrow> u32"
  xreg :: "nat \<Rightarrow> u32"
  uart0_out :: "uart_call list"

text \<open>
  Modelled from the spec: the control-register primitives \<^verbatim>\<open>neorv32_cpu_csr_read\<close>,
  \<^verbatim>\<open>neorv32_cpu_csr_write\<close> and \<^verbatim>\<open>neorv32_cpu_csr_clr\<close> are declared in a header that is
  missing here. Section 6 of the specification names them as read and write primitives on
  the control registers, and section 4.4 has the clearing primitive clear an enable bit:
  a read returns the register, a write replaces it, a clear resets the bits of the mask.
\<close>

definition neorv32_cpu_csr_read :: "csr_id \<Rightarrow> rte_state \<Rightarrow> u32" where
  "neorv32_cpu_csr_read c s = csrs s c"

definition neorv32_cpu_csr_write :: "csr_id \<Rightarrow> u32 \<Rightarrow> rte_state \<Rightarrow> rte_state" where
  "neorv32_cpu_csr_write c v s = s\<lparr>csrs := (csrs s)(c := v)\<rparr>"

definition neorv32_cpu_csr_clr :: "csr_id \<Rightarrow> u32 \<Rightarrow> rte_state \<Rightarrow> rte_state" where
  "neorv32_cpu_csr_clr c m s = s\<lparr>csrs := (csrs s)(c := csrs s c AND NOT m)\<rparr>"

subsection \<open>The vector table\<close>

text \<open>
  The byte offset of \<^verbatim>\<open>__neorv32_rte_vector_lut[row][col]\<close> from the start of the table:
  rows are 32 words long, and the address arithmetic is that of a 32-bit machine, so it
  wraps around at \<open>2 ^ 32\<close>.
\<close>

definition lut_offset :: "u32 \<Rightarrow> u32 \<Rightarrow> u32" where
  "lut_offset row col = 4 * (32 * row + col)"

definition lut_read :: "u32 \<Rightarrow> u32 \<Rightarrow> rte_state \<Rightarrow> u32" where
  "lut_read row col s = vector_lut s (lut_offset row col)"

definition lut_write :: "u32 \<Rightarrow> u32 \<Rightarrow> u32 \<Rightarrow> rte_state \<Rightarrow> rte_state" where
  "lut_write row col v s = s\<lparr>vector_lut := (vector_lut s)(lut_offset row col := v)\<rparr>"

subsection \<open>\<^verbatim>\<open>neorv32_rte_handler_install\<close>\<close>

text \<open>
  The second index of the write is the whole \<open>code\<close>, direction bit included; the read
  in the first-level handler masks it with 31.
\<close>

definition neorv32_rte_handler_install :: "u32 \<Rightarrow> u32 \<Rightarrow> rte_state \<Rightarrow> int \<times> rte_state" where
  "neorv32_rte_handler_install code handler s =
     (if code AND NOT 0x8000001f \<noteq> 0 then (- 1, s)
      else (0, lut_write (drop_bit 31 code) code handler s))"

text \<open>The table look-up of the first-level handler, for the cause \<open>mcause\<close>.\<close>

definition rte_core_lookup :: "u32 \<Rightarrow> rte_state \<Rightarrow> u32" where
  "rte_core_lookup mcause s = lut_read (drop_bit 31 mcause) (mcause AND 31) s"

subsection \<open>\<^verbatim>\<open>neorv32_rte_setup\<close>\<close>

text \<open>
  The memory barrier \<^verbatim>\<open>fence\<close> orders memory accesses between the cores; on the
  state of one core it changes nothing.
\<close>

definition fence :: "rte_state \<Rightarrow> rte_state" where
  "fence s = s"

text \<open>The loop \<^verbatim>\<open>for (index = 0; index < 32; index++)\<close>, entered with \<open>index\<close>.\<close>

function rte_setup_loop :: "platform \<Rightarrow> int \<Rightarrow> rte_state \<Rightarrow> rte_state" where
  "rte_setup_loop p index s =
     (if index < 32
      then rte_setup_loop p (index + 1)
             (lut_write 1 (word_of_int index) (debug_handler_addr p)
               (lut_write 0 (word_of_int index) (debug_handler_addr p) s))
      else s)"
  by pat_completeness auto
termination
  by (relation "measure (\<lambda>(p, index, s). nat (32 - index))") auto

declare rte_setup_loop.simps [simp del]

definition neorv32_rte_setup :: "platform \<Rightarrow> rte_state \<Rightarrow> rte_state" where
  "neorv32_rte_setup p s =
     (let s1 = neorv32_cpu_csr_write CSR_MSTATUS
                 (push_bit (mstatus_mpp_h p) 1 OR push_bit (mstatus_mpp_l p) 1) s;
          s2 = neorv32_cpu_csr_write CSR_MTVEC (rte_core_addr p AND 0xfffffffc) s1;
          s3 = neorv32_cpu_csr_write CSR_MIE 0 s2;
          s4 = (if neorv32_cpu_csr_read CSR_MHARTID s3 = 0 then rte_setup_loop p 0 s3 else s3)
      in fence s4)"

subsection \<open>\<^verbatim>\<open>neorv32_rte_core\<close>: the first-level trap handler\<close>

text \<open>
  Modelled from the spec: the word load and store primitives
  \<^verbatim>\<open>neorv32_cpu_load_unsigned_word\<close> and \<^verbatim>\<open>neorv32_cpu_store_unsigned_word\<close> are declared
  in a header that is missing here. Section 6 of the specification names them as a
  memory-word load and store primitive: a store puts a word at an address, a load reads
  the word at an address. The \<^verbatim>\<open>sw\<close> and \<^verbatim>\<open>lw\<close> instructions of the assembly go through
  the same memory.
\<close>

definition neorv32_cpu_load_unsigned_word :: "u32 \<Rightarrow> rte_state \<Rightarrow> u32" where
  "neorv32_cpu_load_unsigned_word addr s = mem s addr"

definition neorv32_cpu_store_unsigned_word :: "u32 \<Rightarrow> u32 \<Rightarrow> rte_state \<Rightarrow> rte_state" where
  "neorv32_cpu_store_unsigned_word addr wdata s = s\<lparr>mem := (mem s)(addr := wdata)\<rparr>"

text \<open>Register \<open>x0\<close> reads as zero and ignores writes; \<open>x2\<close> is the stack pointer.\<close>

definition reg_read :: "rte_state \<Rightarrow> nat \<Rightarrow> u32" where
  "reg_read s r = (if r = 0 then 0 else xreg s r)"

definition reg_write :: "nat \<Rightarrow> u32 \<Rightarrow> rte_state \<Rightarrow> rte_state" where
  "reg_write r v s = (if r = 0 then s else s\<lparr>xreg := (xreg s)(r := v)\<rparr>)"

text \<open>
  The instructions of the two assembly blocks: \<^verbatim>\<open>sw xr, k*4(sp)\<close>, \<^verbatim>\<open>lw xr, k*4(sp)\<close>,
  \<^verbatim>\<open>csrw csr, xr\<close>, \<^verbatim>\<open>csrrw xd, csr, xr\<close> and \<^verbatim>\<open>addi xd, xr, imm\<close>.
\<close>

definition sw :: "nat \<Rightarrow> nat \<Rightarrow> rte_state \<Rightarrow> rte_state" where
  "sw r k s = neorv32_cpu_store_unsigned_word (reg_read s 2 + 4 * of_nat k) (reg_read s r) s"

definition lw :: "nat \<Rightarrow> nat \<Rightarrow> rte_state \<Rightarrow> rte_state" where
  "lw r k s = reg_write r (neorv32_cpu_load_unsigned_word (reg_read s 2 + 4 * of_nat k) s) s"

definition csrw :: "csr_id \<Rightarrow> nat \<Rightarrow> rte_state \<Rightarrow> rte_state" where
  "csrw c r s = neorv32_cpu_csr_write c (reg_read s r) s"

definition csrrw :: "nat \<Rightarrow> csr_id \<Rightarrow> nat \<Rightarrow> rte_state \<Rightarrow> rte_state" where
  "csrrw rd c r s = reg_write rd (neorv32_cpu_csr_read c s) (neorv32_cpu_csr_write c (reg_read s r) s)"

definition addi :: "nat \<Rightarrow> nat \<Rightarrow> u32 \<Rightarrow> rte_state \<Rightarrow> rte_state" where
  "addi rd r imm s = reg_write rd (reg_read s r + imm) s"

text \<open>The number of registers in the frame: 16 with \<^verbatim>\<open>__riscv_32e\<close>, 32 without.\<close>

definition frame_regs :: "platform \<Rightarrow> nat" where
  "frame_regs p = (if riscv_32e p then 16 else 32)"

text \<open>
  The first assembly block (save context). The unrolled run of stores
  \<^verbatim>\<open>sw x3, 3*4(sp)\<close> ... is a fold over the register numbers.
\<close>

definition rte_core_save :: "platform \<Rightarrow> rte_state \<Rightarrow> rte_state" where
  "rte_core_save p s =
     (let s1 = csrw CSR_MSCRATCH 2 s;
          s2 = addi 2 2 (- (4 * of_nat (frame_regs p))) s1;
          s3 = sw 0 0 s2;
          s4 = sw 1 1 s3;
          s5 = csrrw 1 CSR_MSCRATCH 2 s4;
          s6 = sw 1 2 s5
      in foldl (\<lambda>t r. sw r r t) s6 [3 ..< frame_regs p])"

text \<open>
  The second assembly block (restore context), up to the final \<^verbatim>\<open>mret\<close>, which hands
  control back to the hardware at the address in \<^verbatim>\<open>mepc\<close>.
\<close>

definition rte_core_restore :: "platform \<Rightarrow> rte_state \<Rightarrow> rte_state" where
  "rte_core_restore p s =
     (let s1 = lw 1 1 s;
          s2 = foldl (\<lambda>t r. lw r r t) s1 [3 ..< frame_regs p]
      in lw 2 2 s2)"

text \<open>
  The return-address computation. \<open>mcause\<close> is the local variable read before the
  second-level handler ran; \<^verbatim>\<open>mepc\<close> and \<^verbatim>\<open>mtinst\<close> are read now.
\<close>

definition rte_core_fixup :: "platform \<Rightarrow> u32 \<Rightarrow> rte_state \<Rightarrow> rte_state" where
  "rte_core_fixup p mcause s =
     (if drop_bit 31 mcause = 0 \<and> mcause \<noteq> trap_code_val p TRAP_CODE_I_ACCESS
      then let mepc = neorv32_cpu_csr_read CSR_MEPC s;
               mepc = mepc + 4;
               mepc = (if riscv_c p \<and> neorv32_cpu_csr_read CSR_MTINST s AND 3 \<noteq> 3
                       then mepc - 2 else mepc)
           in neorv32_cpu_csr_write CSR_MEPC mepc s
      else s)"

text \<open>
  A second-level handler is whatever procedure sits at the address found in the table:
  \<open>handlers a s\<close> is the state in which the procedure at address \<open>a\<close>, started in \<open>s\<close>,
  returns, and \<open>None\<close> when it does not return.
\<close>

type_synonym handlers = "u32 \<Rightarrow> rte_state \<Rightarrow> rte_state option"

definition rte_core_call :: "handlers \<Rightarrow> u32 \<Rightarrow> rte_state \<Rightarrow> rte_state option" where
  "rte_core_call H handler_base s = (if handler_base \<noteq> 0 then H handler_base s else Some s)"

definition neorv32_rte_core :: "platform \<Rightarrow> handlers \<Rightarrow> rte_state \<Rightarrow> rte_state option" where
  "neorv32_rte_core p H s =
     (let s1 = fence (rte_core_save p s);
          mcause = neorv32_cpu_csr_read CSR_MCAUSE s1;
          handler_base = rte_core_lookup mcause s1
      in case rte_core_call H handler_base s1 of
           None \<Rightarrow> None
         | Some s2 \<Rightarrow> Some (rte_core_restore p (rte_core_fixup p mcause s2)))"

subsection \<open>\<^verbatim>\<open>neorv32_rte_context_get\<close> and \<^verbatim>\<open>neorv32_rte_context_put\<close>\<close>

definition context_mask :: "platform \<Rightarrow> c_int" where
  "context_mask p = (if riscv_32e p then 15 else 31)"

definition neorv32_rte_context_get :: "platform \<Rightarrow> c_int \<Rightarrow> rte_state \<Rightarrow> u32" where
  "neorv32_rte_context_get p x s =
     (let tmp = neorv32_cpu_csr_read CSR_MSCRATCH s;
          tmp = tmp + push_bit 2 (x AND context_mask p)
      in neorv32_cpu_load_unsigned_word tmp s)"

definition neorv32_rte_context_put :: "platform \<Rightarrow> c_int \<Rightarrow> u32 \<Rightarrow> rte_state \<Rightarrow> rte_state" where
  "neorv32_rte_context_put p x wdata s =
     (let tmp = neorv32_cpu_csr_read CSR_MSCRATCH s;
          tmp = tmp + push_bit 2 (x AND context_mask p)
      in neorv32_cpu_store_unsigned_word tmp wdata s)"

subsection \<open>The UART0 driver\<close>

text \<open>
  Modelled from the spec: the character-output driver (\<^verbatim>\<open>neorv32_uart0_putc\<close>,
  \<^verbatim>\<open>neorv32_uart0_puts\<close>; its availability check is the platform field
  \<open>uart0_available\<close>) is declared in a header that is missing here. Section 6 of the
  specification names single-character and string output operations; each call is
  recorded with its argument, and nothing else changes.
\<close>

definition neorv32_uart0_putc :: "char \<Rightarrow> rte_state \<Rightarrow> rte_state" where
  "neorv32_uart0_putc c s = s\<lparr>uart0_out := uart0_out s @ [Putc c]\<rparr>"

definition neorv32_uart0_puts :: "string \<Rightarrow> rte_state \<Rightarrow> rte_state" where
  "neorv32_uart0_puts str s = s\<lparr>uart0_out := uart0_out s @ [Puts str]\<rparr>"

subsection \<open>\<^verbatim>\<open>__neorv32_rte_print_hex\<close>\<close>

definition hex_symbols :: string where
  "hex_symbols = ''0123456789ABCDEF''"

text \<open>
  \<^verbatim>\<open>num >> n\<close> on a 32-bit unsigned value with an \<^verbatim>\<open>int\<close> amount. C defines the result
  for amounts from 0 to 31 only; outside of them the platform decides.
\<close>

definition shr_u32 :: "platform \<Rightarrow> u32 \<Rightarrow> int \<Rightarrow> u32" where
  "shr_u32 p num n =
     (if 0 \<le> n \<and> n < 32 then drop_bit (nat n) num else shr_out_of_range p num n)"

text \<open>The character one iteration emits, given the shift amount \<open>28 - 4*i\<close> it uses.\<close>

definition print_hex_char :: "platform \<Rightarrow> u32 \<Rightarrow> int \<Rightarrow> char" where
  "print_hex_char p num n = hex_symbols ! unat (shr_u32 p num n AND 0xF)"

text \<open>The loop \<^verbatim>\<open>for (...; i<8; i++)\<close>, entered with \<open>i\<close>.\<close>

function print_hex_loop :: "platform \<Rightarrow> u32 \<Rightarrow> int \<Rightarrow> rte_state \<Rightarrow> rte_state" where
  "print_hex_loop p num i s =
     (if i < 8
      then print_hex_loop p num (i + 1) (neorv32_uart0_putc (print_hex_char p num (28 - 4 * i)) s)
      else s)"
  by pat_completeness auto
termination
  by (relation "measure (\<lambda>(p, num, i, s). nat (8 - i))") auto

declare print_hex_loop.simps [simp del]

text \<open>The shift amounts the loop computes, in order, when entered with \<open>i\<close>.\<close>

function print_hex_shifts :: "int \<Rightarrow> int list" where
  "print_hex_shifts i = (if i < 8 then (28 - 4 * i) # print_hex_shifts (i + 1) else [])"
  by pat_completeness auto
termination
  by (relation "measure (\<lambda>i. nat (8 - i))") auto

declare print_hex_shifts.simps [simp del]

definition print_hex :: "platform \<Rightarrow> u32 \<Rightarrow> int \<Rightarrow> rte_state \<Rightarrow> rte_state" where
  "print_hex p num digits s =
     (if uart0_available p \<noteq> 0
      then print_hex_loop p num (digits - 8)
             (neorv32_uart0_putc CHR ''x'' (neorv32_uart0_putc CHR ''0'' s))
      else s)"

subsection \<open>\<^verbatim>\<open>neorv32_rte_debug_handler\<close>\<close>

text \<open>The \<^verbatim>\<open>switch (trap_cause)\<close>: the name of the cause.\<close>

definition is_firq :: "platform \<Rightarrow> u32 \<Rightarrow> bool" where
  "is_firq p trap_cause \<longleftrightarrow>
     trap_cause \<in> set (map (\<lambda>k. trap_code_val p (TRAP_CODE_FIRQ k)) [0 ..< 16])"

definition debug_handler_cause :: "platform \<Rightarrow> u32 \<Rightarrow> rte_state \<Rightarrow> rte_state" where
  "debug_handler_cause p trap_cause s =
     (let tc = trap_code_val p in
      if trap_cause = tc TRAP_CODE_I_ACCESS then neorv32_uart0_puts ''Instruction access fault'' s
      else if trap_cause = tc TRAP_CODE_I_ILLEGAL then neorv32_uart0_puts ''Illegal instruction'' s
      else if trap_cause = tc TRAP_CODE_I_MISALIGNED then neorv32_uart0_puts ''Instruction address misaligned'' s
      else if trap_cause = tc TRAP_CODE_BREAKPOINT then neorv32_uart0_puts ''Environment breakpoint'' s
      else if trap_cause = tc TRAP_CODE_L_MISALIGNED then neorv32_uart0_puts ''Load address misaligned'' s
      else if trap_cause = tc TRAP_CODE_L_ACCESS then neorv32_uart0_puts ''Load access fault'' s
      else if trap_cause = tc TRAP_CODE_S_MISALIGNED then neorv32_uart0_puts ''Store address misaligned'' s
      else if trap_cause = tc TRAP_CODE_S_ACCESS then neorv32_uart0_puts ''Store access fault'' s
      else if trap_cause = tc TRAP_CODE_UENV_CALL then neorv32_uart0_puts ''Environment call from U-mode'' s
      else if trap_cause = tc TRAP_CODE_MENV_CALL then neorv32_uart0_puts ''Environment call from M-mode'' s
      else if trap_cause = tc TRAP_CODE_DOUBLE_TRAP then neorv32_uart0_puts ''Double-trap'' s
      else if trap_cause = tc TRAP_CODE_MSI then neorv32_uart0_puts ''Machine software IRQ'' s
      else if trap_cause = tc TRAP_CODE_MTI then neorv32_uart0_puts ''Machine timer IRQ'' s
      else if trap_cause = tc TRAP_CODE_MEI then neorv32_uart0_puts ''Machine external IRQ'' s
      else if is_firq p trap_cause then print_hex p trap_cause 1 (neorv32_uart0_puts ''Fast IRQ '' s)
      else print_hex p trap_cause 8 (neorv32_uart0_puts ''Unknown trap cause '' s))"

text \<open>The opening of the report: marker, core and privilege level.\<close>

definition debug_handler_intro :: "platform \<Rightarrow> rte_state \<Rightarrow> rte_state" where
  "debug_handler_intro p s =
     (let s1 = neorv32_uart0_puts ''<NEORV32-RTE> '' s;
          s2 = (if neorv32_cpu_csr_read CSR_MHARTID s1 AND 1 \<noteq> 0
                then neorv32_uart0_puts ''[cpu1|'' s1 else neorv32_uart0_puts ''[cpu0|'' s1)
      in if neorv32_cpu_csr_read CSR_MSTATUS s2 AND push_bit (mstatus_mpp_l p) 3 \<noteq> 0
         then neorv32_uart0_puts ''M] '' s2 else neorv32_uart0_puts ''U] '' s2)"

text \<open>The rest of the report: cause, instruction address, instruction and trap value.\<close>

definition debug_handler_info :: "platform \<Rightarrow> u32 \<Rightarrow> rte_state \<Rightarrow> rte_state" where
  "debug_handler_info p trap_cause s =
     (let s1 = debug_handler_cause p trap_cause s;
          s2 = neorv32_uart0_puts '' @ PC='' s1;
          s3 = print_hex p (neorv32_cpu_csr_read CSR_MEPC s2) 8 s2;
          s4 = neorv32_uart0_puts '', MTINST='' s3;
          s5 = print_hex p (neorv32_cpu_csr_read CSR_MTINST s4) 8 s4;
          s6 = neorv32_uart0_puts '', MTVAL='' s5
      in print_hex p (neorv32_cpu_csr_read CSR_MTVAL s6) 8 s6)"

text \<open>\<^verbatim>\<open>asm volatile ("wfi")\<close>: the core sleeps until an interrupt is pending.\<close>

definition wfi :: "rte_state \<Rightarrow> rte_state" where
  "wfi s = s"

text \<open>The loop \<^verbatim>\<open>while(1) { asm volatile ("wfi"); }\<close>; \<open>None\<close> stands for not returning.\<close>

partial_function (option) wfi_loop :: "rte_state \<Rightarrow> rte_state option" where
  "wfi_loop s = wfi_loop (wfi s)"

definition is_fatal :: "platform \<Rightarrow> u32 \<Rightarrow> bool" where
  "is_fatal p trap_cause \<longleftrightarrow>
     trap_cause = trap_code_val p TRAP_CODE_I_ACCESS \<or>
     trap_cause = trap_code_val p TRAP_CODE_I_MISALIGNED \<or>
     trap_cause = trap_code_val p TRAP_CODE_DOUBLE_TRAP"

text \<open>
  The straight-line part of the handler: the state it reaches, and whether it reaches it
  at the \<^verbatim>\<open>while(1)\<close> loop (\<open>True\<close>) or at a \<^verbatim>\<open>return\<close> (\<open>False\<close>).
\<close>

definition debug_handler_body :: "platform \<Rightarrow> rte_state \<Rightarrow> rte_state \<times> bool" where
  "debug_handler_body p s =
     (if uart0_available p = 0 then (s, False)
      else
        let s1 = debug_handler_intro p s;
            trap_cause = neorv32_cpu_csr_read CSR_MCAUSE s1;
            s2 = debug_handler_info p trap_cause s1;
            s3 = (if sint trap_cause < 0
                  then neorv32_cpu_csr_clr CSR_MIE (push_bit (unat (trap_cause AND 0x1f)) 1)
                         (neorv32_uart0_puts '' Disabling IRQ source'' s2)
                  else s2)
        in if is_fatal p trap_cause
           then (neorv32_cpu_csr_write CSR_MIE 0
                   (neorv32_uart0_puts ('' !!FATAL EXCEPTION!! Halting CPU </NEORV32-RTE>'' @ [CHR 0x0A]) s3),
                 True)
           else (neorv32_uart0_puts ('' </NEORV32-RTE>'' @ [CHR 0x0A]) s3, False))"

definition neorv32_rte_debug_handler :: "platform \<Rightarrow> rte_state \<Rightarrow> rte_state option" where
  "neorv32_rte_debug_handler p s =
     (case debug_handler_body p s of
        (t, True) \<Rightarrow> wfi_loop t
      | (t, False) \<Rightarrow> Some t)"

text \<open>\<open>only_uart0 s t\<close>: the state \<open>t\<close> differs from \<open>s\<close> at most in the record of UART0 calls.\<close>

definition only_uart0 :: "rte_state \<Rightarrow> rte_state \<Rightarrow> bool" where
  "only_uart0 s t \<longleftrightarrow>
     csrs t = csrs s \<and> vector_lut t = vector_lut s \<and> mem t = mem s \<and> xreg t = xreg s"

subsection \<open>A concrete platform and concrete states\<close>

text \<open>
  The trap codes of the RISC-V privileged architecture as NEORV32 uses them (the sixteen
  fast interrupts take the causes 16 to 31 with the interrupt bit set), the positions 11
  and 12 of the \<open>MPP\<close> field of \<^verbatim>\<open>mstatus\<close>, and a right shift that takes its amount
  modulo 32, as the \<^verbatim>\<open>srl\<close> instruction of RV32 does.
\<close>

fun riscv_trap_code :: "trap_code \<Rightarrow> u32" where
  "riscv_trap_code TRAP_CODE_I_MISALIGNED = 0x00000000"
| "riscv_trap_code TRAP_CODE_I_ACCESS = 0x00000001"
| "riscv_trap_code TRAP_CODE_I_ILLEGAL = 0x00000002"
| "riscv_trap_code TRAP_CODE_BREAKPOINT = 0x00000003"
| "riscv_trap_code TRAP_CODE_L_MISALIGNED = 0x00000004"
| "riscv_trap_code TRAP_CODE_L_ACCESS = 0x00000005"
| "riscv_trap_code TRAP_CODE_S_MISALIGNED = 0x00000006"
| "riscv_trap_code TRAP_CODE_S_ACCESS = 0x00000007"
| "riscv_trap_code TRAP_CODE_UENV_CALL = 0x00000008"
| "riscv_trap_code TRAP_CODE_MENV_CALL = 0x0000000b"
| "riscv_trap_code TRAP_CODE_DOUBLE_TRAP = 0x00000010"
| "riscv_trap_code TRAP_CODE_MSI = 0x80000003"
| "riscv_trap_code TRAP_CODE_MTI = 0x80000007"
| "riscv_trap_code TRAP_CODE_MEI = 0x8000000b"
| "riscv_trap_code (TRAP_CODE_FIRQ k) = 0x80000010 + of_nat k"

definition srl_rv32 :: "u32 \<Rightarrow> int \<Rightarrow> u32" where
  "srl_rv32 num n = drop_bit (nat (n mod 32)) num"

definition ex_platform :: platform where
  "ex_platform =
     \<lparr>riscv_32e = False, riscv_c = True, trap_code_val = riscv_trap_code,
      mstatus_mpp_l = 11, mstatus_mpp_h = 12,
      rte_core_addr = 0x00000200, debug_handler_addr = 0x00000400,
      uart0_available = 1, shr_out_of_range = srl_rv32\<rparr>"

definition ex_platform_no_uart :: platform where
  "ex_platform_no_uart = ex_platform\<lparr>uart0_available := 0\<rparr>"

text \<open>
  A state with all control registers, the vector table, the memory and the registers
  zero, except for the cause \<open>mcause\<close>, the resume address \<open>0x1000\<close>, the trapped
  instruction word \<open>mtinst\<close>, all interrupts enabled, and the stack pointer \<open>0x8000\<close>.
\<close>

definition ex_state :: "u32 \<Rightarrow> u32 \<Rightarrow> rte_state" where
  "ex_state mcause mtinst =
     \<lparr>csrs = (\<lambda>c. 0)(CSR_MCAUSE := mcause, CSR_MEPC := 0x1000, CSR_MTINST := mtinst,
                        CSR_MIE := 0xffffffff),
      vector_lut = (\<lambda>a. 0), mem = (\<lambda>a. 0), xreg = (\<lambda>r. 0)(2 := 0x8000),
      uart0_out = []\<rparr>"

text \<open>
  The same state with the address \<open>0x400\<close> installed in the slot of its cause, and two
  choices of second-level handlers: one whose handlers return at once, and one whose
  handlers set the resume address \<^verbatim>\<open>mepc\<close> to \<open>0x2000\<close> before they return.
\<close>

definition ex_state_installed :: "u32 \<Rightarrow> u32 \<Rightarrow> rte_state" where
  "ex_state_installed mcause mtinst =
     lut_write (drop_bit 31 mcause) (mcause AND 31) 0x400 (ex_state mcause mtinst)"

definition ex_handlers_return :: handlers where
  "ex_handlers_return a t = Some t"

definition ex_handlers_redirect :: handlers where
  "ex_handlers_redirect a t = Some (neorv32_cpu_csr_write CSR_MEPC 0x2000 t)"

text \<open>The resume address the first-level handler leaves, when it returns.\<close>

definition rte_core_mepc :: "platform \<Rightarrow> handlers \<Rightarrow> rte_state \<Rightarrow> u32 option" where
  "rte_core_mepc p H s = map_option (\<lambda>t. csrs t CSR_MEPC) (neorv32_rte_core p H s)"

section \<open>Properties\<close>

subsection \<open>Slots of the vector table\<close>

lemma bit_trap_mask: "bit (0x8000001f :: u32) n \<longleftrightarrow> n < 5 \<or> n = 31"
proof -
  have eq: "(0x8000001f :: u32) = push_bit 31 1 OR mask 5" by (simp add: mask_numeral)
  show ?thesis unfolding eq by (auto simp add: bit_simps simp del: push_bit_of_1)
qed

lemma bit_31_word: "bit (31 :: u32) n \<longleftrightarrow> n < 5"
proof -
  have eq: "(31 :: u32) = mask 5" by (simp add: mask_numeral)
  show ?thesis unfolding eq by (auto simp add: bit_simps)
qed

lemma valid_code_bits:
  fixes code :: u32
  assumes "code AND NOT 0x8000001f = 0" and b: "bit code n"
  shows "n < 5 \<or> n = 31"
proof -
  have "\<not> bit (code AND NOT 0x8000001f) n" using assms by simp
  hence "bit (0x8000001f :: u32) n" using b by (auto simp add: bit_simps dest: bit_imp_le_length)
  thus ?thesis by (simp only: bit_trap_mask)
qed

lemma push_bit_2_cong:
  fixes a b :: u32
  assumes "\<And>m. m < 30 \<Longrightarrow> bit a m = bit b m"
  shows "push_bit 2 a = push_bit 2 b"
proof (rule bit_eqI)
  fix n
  assume "possible_bit TYPE(u32) n"
  hence n: "n < 32" by simp
  show "bit (push_bit 2 a) n = bit (push_bit 2 b) n"
  proof (cases "2 \<le> n")
    case True
    with n have "n - 2 < 30" by arith
    from assms [OF this] show ?thesis by (simp add: bit_push_bit_iff)
  next
    case False
    thus ?thesis by (simp add: bit_push_bit_iff)
  qed
qed

lemma four_times_code:
  fixes code :: u32
  assumes "code AND NOT 0x8000001f = 0"
  shows "4 * code = 4 * (code AND 31)"
proof -
  have "push_bit 2 code = push_bit 2 (code AND 31)"
  proof (rule push_bit_2_cong)
    fix m :: nat
    assume m: "m < 30"
    have "bit (code AND 31) m \<longleftrightarrow> bit code m \<and> m < 5"
      by (simp only: bit_and_iff bit_31_word)
    moreover have "bit code m \<Longrightarrow> m < 5"
      using valid_code_bits [OF assms, of m] m by arith
    ultimately show "bit code m = bit (code AND 31) m" by blast
  qed
  hence "code * 2 ^ 2 = (code AND 31) * 2 ^ 2" by (simp only: push_bit_eq_mult)
  hence "code * 4 = (code AND 31) * 4" by simp
  thus ?thesis by (simp only: mult.commute [of 4])
qed

lemma lut_offset_code:
  fixes code :: u32
  assumes "code AND NOT 0x8000001f = 0"
  shows "lut_offset row code = lut_offset row (code AND 31)"
proof -
  have "lut_offset row code = 4 * (32 * row) + 4 * code"
    by (simp only: lut_offset_def distrib_left)
  also have "\<dots> = 4 * (32 * row) + 4 * (code AND 31)"
    by (simp only: four_times_code [OF assms])
  also have "\<dots> = lut_offset row (code AND 31)"
    by (simp only: lut_offset_def distrib_left)
  finally show ?thesis .
qed

lemma unat_lut_offset:
  fixes d i :: u32
  assumes "d < 2" "i < 32"
  shows "unat (lut_offset d i) = 4 * (32 * unat d + unat i)"
proof -
  have d: "unat d < 2" and i: "unat i < 32"
    using assms by (simp_all add: word_less_nat_alt)
  have a: "unat (32 * d) = 32 * unat d"
    using d by (subst unat_mult_lem [THEN iffD1]) simp_all
  have b: "unat (32 * d + i) = 32 * unat d + unat i"
    using d i a by (subst unat_add_lem [THEN iffD1]) simp_all
  have "unat (4 * (32 * d + i)) = 4 * unat (32 * d + i)"
    using d i b by (subst unat_mult_lem [THEN iffD1]) simp_all
  thus ?thesis using b by (simp add: lut_offset_def)
qed

lemma lut_offset_inj:
  fixes d i d' i' :: u32
  assumes "d < 2" "d' < 2" "i < 32" "i' < 32" "lut_offset d i = lut_offset d' i'"
  shows "d = d' \<and> i = i'"
proof -
  have d: "unat d < 2" "unat d' < 2" and i: "unat i < 32" "unat i' < 32"
    using assms by (simp_all add: word_less_nat_alt)
  have "4 * (32 * unat d + unat i) = 4 * (32 * unat d' + unat i')"
    using assms by (simp only: unat_lut_offset [symmetric])
  hence e: "32 * unat d + unat i = 32 * unat d' + unat i'"
    by simp
  have "(32 * unat d + unat i) div 32 = unat d" "(32 * unat d' + unat i') div 32 = unat d'"
    using i by simp_all
  with e have dd: "unat d = unat d'"
    by simp
  with e have "unat i = unat i'"
    by simp
  with dd show ?thesis by (simp only: word_unat_eq_iff)
qed

lemma and_31_less: "(w :: u32) AND 31 < 32"
proof -
  have "w AND mask 5 < 2 ^ 5" by (rule and_mask_less') simp
  thus ?thesis by (simp add: mask_numeral)
qed

lemma drop_bit_31_less: "drop_bit 31 (w :: u32) < 2"
proof -
  have "unat w < 2 ^ 32" using unsigned_less [of w] by simp
  hence "unat w div 2 ^ 31 < 2" by simp
  hence "drop_bit 31 (unat w) < 2" by (simp only: drop_bit_eq_div)
  hence "unat (drop_bit 31 w) < 2" by (simp only: unat_drop_bit_eq)
  thus ?thesis by (simp add: word_less_nat_alt)
qed

lemma lut_read_write:
  "lut_read row col (lut_write row' col' v s) =
     (if lut_offset row col = lut_offset row' col' then v else lut_read row col s)"
  by (simp add: lut_read_def lut_write_def)

lemma lut_read_write_slot:
  assumes "row < 2" "col < 32" "row' < 2" "col' < 32"
  shows "lut_read row col (lut_write row' col' v s) =
     (if row = row' \<and> col = col' then v else lut_read row col s)"
  using lut_offset_inj [OF assms(1) assms(3) assms(2) assms(4)]
  by (auto simp add: lut_read_write)

subsection \<open>Installing a handler\<close>

text \<open>
  Claim C2. For every identifier in which only the direction bit (bit 31) and the index
  field (bits 4..0) may be set, the installer returns the success status 0 and writes the
  handler address into the slot selected by direction and index: that slot lies in the
  table, each of the other 63 slots keeps its value, nothing outside the table and
  nothing else in the state changes, and the look-up the first-level handler makes for
  the same identifier reads the handler address back. The write indexes the row with the
  whole identifier; the direction bit in it is lost when the 32-bit address arithmetic
  wraps around, so the write lands where the masked read looks.
\<close>

theorem handler_install_valid:
  assumes "code AND NOT 0x8000001f = 0"
  shows "\<exists>s'. neorv32_rte_handler_install code handler s = (0, s')
     \<and> drop_bit 31 code < 2 \<and> code AND 31 < 32
     \<and> vector_lut s' = (vector_lut s)(lut_offset (drop_bit 31 code) (code AND 31) := handler)
     \<and> (\<forall>row col. row < 2 \<longrightarrow> col < 32 \<longrightarrow>
           lut_read row col s' =
             (if row = drop_bit 31 code \<and> col = code AND 31 then handler
              else lut_read row col s))
     \<and> rte_core_lookup code s' = handler
     \<and> csrs s' = csrs s \<and> mem s' = mem s \<and> xreg s' = xreg s \<and> uart0_out s' = uart0_out s"
proof -
  let ?s' = "lut_write (drop_bit 31 code) (code AND 31) handler s"
  have w: "lut_write (drop_bit 31 code) code handler s = ?s'"
    by (simp only: lut_write_def lut_offset_code [OF assms])
  have "neorv32_rte_handler_install code handler s = (0, ?s')"
    using assms w by (simp add: neorv32_rte_handler_install_def)
  moreover have "\<forall>row col. row < 2 \<longrightarrow> col < 32 \<longrightarrow>
           lut_read row col ?s' =
             (if row = drop_bit 31 code \<and> col = code AND 31 then handler
              else lut_read row col s)"
    using lut_read_write_slot [OF _ _ drop_bit_31_less and_31_less] by blast
  moreover have "rte_core_lookup code ?s' = handler"
    by (simp add: rte_core_lookup_def lut_read_write)
  moreover have "vector_lut ?s' = (vector_lut s)(lut_offset (drop_bit 31 code) (code AND 31) := handler)"
    by (simp add: lut_write_def)
  moreover have "csrs ?s' = csrs s \<and> mem ?s' = mem s \<and> xreg ?s' = xreg s \<and> uart0_out ?s' = uart0_out s"
    by (simp add: lut_write_def)
  ultimately show ?thesis
    using drop_bit_31_less [of code] and_31_less [of code] by blast
qed

theorem handler_install_valid_witness:
  "(0x80000007 :: u32) AND NOT 0x8000001f = 0
   \<and> fst (neorv32_rte_handler_install 0x80000007 0x1234 (ex_state 0 0)) = 0
   \<and> rte_core_lookup 0x80000007 (snd (neorv32_rte_handler_install 0x80000007 0x1234 (ex_state 0 0))) = 0x1234
   \<and> lut_read 1 7 (snd (neorv32_rte_handler_install 0x80000007 0x1234 (ex_state 0 0))) = 0x1234
   \<and> lut_read 0 7 (snd (neorv32_rte_handler_install 0x80000007 0x1234 (ex_state 0 0))) = 0"
proof -
  have h: "(0x80000007 :: u32) AND NOT 0x8000001f = 0" by simp
  from handler_install_valid [OF h, of "0x1234" "ex_state 0 0"]
  obtain s' where i: "neorv32_rte_handler_install 0x80000007 0x1234 (ex_state 0 0) = (0, s')"
    and slots: "\<forall>row col. row < 2 \<longrightarrow> col < 32 \<longrightarrow>
           lut_read row col s' =
             (if row = drop_bit 31 (0x80000007 :: u32) \<and> col = 0x80000007 AND 31 then 0x1234
              else lut_read row col (ex_state 0 0))"
    and look: "rte_core_lookup 0x80000007 s' = 0x1234"
    by blast
  have a: "lut_read 1 7 s' = 0x1234"
    using slots [rule_format, of 1 7] by simp
  have b: "lut_read 0 7 s' = 0"
    using slots [rule_format, of 0 7] by (simp add: lut_read_def ex_state_def)
  show ?thesis using h i look a b by simp
qed

text \<open>
  Claim C3. For every identifier with a bit set outside bit 31 and bits 4..0, the
  installer returns the status -1 and leaves the whole state, the vector table included,
  as it was.
\<close>

theorem handler_install_invalid:
  assumes "code AND NOT 0x8000001f \<noteq> 0"
  shows "neorv32_rte_handler_install code handler s = (- 1, s)"
  using assms by (simp add: neorv32_rte_handler_install_def)

theorem handler_install_invalid_witness:
  "(0x20 :: u32) AND NOT 0x8000001f \<noteq> 0
   \<and> neorv32_rte_handler_install 0x20 0x1234 (ex_state 0 0) = (- 1, ex_state 0 0)"
proof -
  have h: "(0x20 :: u32) AND NOT 0x8000001f \<noteq> 0" by simp
  show ?thesis using h handler_install_invalid [OF h, of "0x1234" "ex_state 0 0"] by simp
qed

subsection \<open>The context accessors\<close>

lemma sint_small_less:
  fixes x :: u32
  assumes "0 \<le> sint x" "sint x < n" "n \<le> 32"
  shows "uint x = sint x"
proof -
  have "uint (word_of_int (sint x) :: u32) = sint x mod 2 ^ LENGTH(32)"
    by (rule uint_word_of_int)
  hence "uint x = sint x mod 2 ^ 32"
    by simp
  also have "\<dots> = sint x"
    using assms by simp
  finally show ?thesis .
qed

lemma valid_index_mask:
  assumes "0 \<le> sint x" "sint x < int (frame_regs p)"
  shows "x AND context_mask p = x"
proof (cases "riscv_32e p")
  case True
  hence b: "sint x < 16" using assms(2) by (simp add: frame_regs_def)
  hence "uint x < 16" using sint_small_less [OF assms(1) b] by simp
  hence "x < 2 ^ 4" by (simp add: word_less_def)
  hence "x AND mask 4 = x" by (rule less_mask_eq)
  thus ?thesis using True by (simp add: context_mask_def mask_numeral)
next
  case False
  hence b: "sint x < 32" using assms(2) by (simp add: frame_regs_def)
  hence "uint x < 32" using sint_small_less [OF assms(1) b] by simp
  hence "x < 2 ^ 5" by (simp add: word_less_def)
  hence "x AND mask 5 = x" by (rule less_mask_eq)
  thus ?thesis using False by (simp add: context_mask_def mask_numeral)
qed

text \<open>
  Claim C9. Reading register \<open>x\<close> of the saved context after writing \<open>v\<close> to it returns
  \<open>v\<close>, for every register number and every word, as long as the scratch register is
  the same for both (the write leaves it alone). For a register number valid for the
  configured register file (0..31, or 0..15 with the reduced file) the mask changes
  nothing, and both accessors address the word at the frame base, read from
  \<^verbatim>\<open>mscratch\<close>, plus four times the register number.
\<close>

theorem context_put_get:
  "neorv32_rte_context_get p x (neorv32_rte_context_put p x v s) = v
   \<and> (0 \<le> sint x \<and> sint x < int (frame_regs p) \<longrightarrow>
        neorv32_rte_context_get p x s = mem s (csrs s CSR_MSCRATCH + 4 * x)
      \<and> neorv32_rte_context_put p x v s = s\<lparr>mem := (mem s)(csrs s CSR_MSCRATCH + 4 * x := v)\<rparr>)"
proof (intro conjI impI)
  show "neorv32_rte_context_get p x (neorv32_rte_context_put p x v s) = v"
    by (simp add: neorv32_rte_context_get_def neorv32_rte_context_put_def
        neorv32_cpu_csr_read_def neorv32_cpu_load_unsigned_word_def
        neorv32_cpu_store_unsigned_word_def Let_def)
next
  assume "0 \<le> sint x \<and> sint x < int (frame_regs p)"
  hence m: "x AND context_mask p = x" by (simp add: valid_index_mask)
  have f: "push_bit 2 x = 4 * x" by (simp add: push_bit_eq_mult)
  show "neorv32_rte_context_get p x s = mem s (csrs s CSR_MSCRATCH + 4 * x)"
    by (simp only: neorv32_rte_context_get_def Let_def m f
        neorv32_cpu_csr_read_def neorv32_cpu_load_unsigned_word_def)
  show "neorv32_rte_context_put p x v s = s\<lparr>mem := (mem s)(csrs s CSR_MSCRATCH + 4 * x := v)\<rparr>"
    by (simp only: neorv32_rte_context_put_def Let_def m f
        neorv32_cpu_csr_read_def neorv32_cpu_store_unsigned_word_def)
qed

theorem context_put_get_witness:
  "0 \<le> sint (5 :: c_int) \<and> sint (5 :: c_int) < int (frame_regs ex_platform)
   \<and> neorv32_rte_context_get ex_platform 5
        (neorv32_rte_context_put ex_platform 5 0xdeadbeef (ex_state 0 0)) = 0xdeadbeef
   \<and> neorv32_rte_context_get ex_platform 5 (ex_state 0 0) = mem (ex_state 0 0) 20
   \<and> neorv32_rte_context_put ex_platform 5 0xdeadbeef (ex_state 0 0)
       = (ex_state 0 0)\<lparr>mem := (mem (ex_state 0 0))(20 := 0xdeadbeef)\<rparr>"
proof -
  have h: "0 \<le> sint (5 :: c_int) \<and> sint (5 :: c_int) < int (frame_regs ex_platform)"
    by (simp add: frame_regs_def ex_platform_def)
  have e: "csrs (ex_state 0 0) CSR_MSCRATCH + 4 * 5 = (20 :: u32)"
    by (simp add: ex_state_def)
  note t = context_put_get [of ex_platform 5 "0xdeadbeef" "ex_state 0 0"]
  from t have a: "neorv32_rte_context_get ex_platform 5
        (neorv32_rte_context_put ex_platform 5 0xdeadbeef (ex_state 0 0)) = 0xdeadbeef"
    by (rule conjunct1)
  from t h have b: "neorv32_rte_context_get ex_platform 5 (ex_state 0 0)
        = mem (ex_state 0 0) (csrs (ex_state 0 0) CSR_MSCRATCH + 4 * 5)
      \<and> neorv32_rte_context_put ex_platform 5 0xdeadbeef (ex_state 0 0)
        = (ex_state 0 0)\<lparr>mem := (mem (ex_state 0 0))(csrs (ex_state 0 0) CSR_MSCRATCH + 4 * 5 := 0xdeadbeef)\<rparr>"
    by blast
  from h a b [unfolded e] show ?thesis
    by blast
qed

subsection \<open>The debug handler without UART0\<close>

text \<open>
  Claim C6. When UART0 is not available the debug handler returns at once, in the state
  in which it was called, whatever the trap cause: no interrupt-enable bit is cleared and
  the halt loop is not entered.
\<close>

theorem debug_handler_no_uart:
  assumes "uart0_available p = 0"
  shows "neorv32_rte_debug_handler p s = Some s"
  using assms by (simp add: neorv32_rte_debug_handler_def debug_handler_body_def)

theorem debug_handler_no_uart_witness:
  "uart0_available ex_platform_no_uart = 0
   \<and> neorv32_rte_debug_handler ex_platform_no_uart (ex_state 0x80000007 0)
       = Some (ex_state 0x80000007 0)"
proof -
  have h: "uart0_available ex_platform_no_uart = 0"
    by (simp add: ex_platform_no_uart_def)
  show ?thesis
    using h debug_handler_no_uart [OF h, of "ex_state 0x80000007 0"] by simp
qed

subsection \<open>Setup\<close>

lemma word_minus_4: "(0xfffffffc :: u32) = NOT 3"
proof -
  have "uint (0xfffffffc :: u32) = uint (- 4 :: u32)"
    by (simp add: uint_word_ariths)
  hence "(0xfffffffc :: u32) = - 4" by (simp only: word_uint_eq_iff)
  thus ?thesis by simp
qed

lemma aligned_and:
  fixes a :: u32
  assumes "a AND 3 = 0"
  shows "a AND 0xfffffffc = a"
proof -
  have "a AND NOT 3 = a"
  proof (rule bit_eqI)
    fix n
    have "\<not> bit (a AND 3) n" using assms by simp
    hence "bit a n \<Longrightarrow> \<not> bit (3 :: u32) n" by (simp only: bit_and_iff) blast
    thus "bit (a AND NOT 3) n = bit a n"
      by (auto simp only: bit_and_iff bit_not_iff dest: bit_imp_possible_bit)
  qed
  thus ?thesis by (simp only: word_minus_4)
qed

lemma row_cases:
  fixes row :: u32
  assumes "row < 2"
  shows "row = 0 \<or> row = 1"
proof -
  have "unat row < 2" using assms by (simp add: word_less_nat_alt)
  hence "unat row = unat (0 :: u32) \<or> unat row = unat (1 :: u32)" by auto
  thus ?thesis by (simp only: word_unat_eq_iff)
qed

lemma word_of_index:
  assumes "0 \<le> index" "index < 32"
  shows "(word_of_int index :: u32) < 32" and "uint (word_of_int index :: u32) = index"
proof -
  have "uint (word_of_int index :: u32) = index mod 2 ^ LENGTH(32)"
    by (rule uint_word_of_int)
  thus u: "uint (word_of_int index :: u32) = index"
    using assms by simp
  thus "(word_of_int index :: u32) < 32"
    using assms by (simp add: word_less_def)
qed

lemma rte_setup_loop_csrs: "csrs (rte_setup_loop p i s) = csrs s"
proof (induction p i s rule: rte_setup_loop.induct)
  case (1 p index s)
  show ?case
  proof (cases "index < 32")
    case True
    with 1 show ?thesis
      by (subst rte_setup_loop.simps) (simp add: lut_write_def)
  next
    case False
    thus ?thesis by (subst rte_setup_loop.simps) simp
  qed
qed

lemma rte_setup_loop_lut:
  assumes "row < 2" "col < 32"
  shows "0 \<le> i \<Longrightarrow> lut_read row col (rte_setup_loop p i s) =
           (if i \<le> uint col then debug_handler_addr p else lut_read row col s)"
proof (induction p i s rule: rte_setup_loop.induct)
  case (1 p index s)
  have c: "uint col < 32" using assms(2) by (simp add: word_less_def)
  show ?case
  proof (cases "index < 32")
    case True
    let ?w = "word_of_int index :: u32"
    let ?s' = "lut_write 1 ?w (debug_handler_addr p) (lut_write 0 ?w (debug_handler_addr p) s)"
    have w: "?w < 32" "uint ?w = index"
      using word_of_index [OF "1.prems" True] by simp_all
    have eq: "col = ?w \<longleftrightarrow> uint col = index"
      using w(2) by (auto simp add: word_uint_eq_iff)
    have step: "lut_read row col ?s' =
        (if uint col = index then debug_handler_addr p else lut_read row col s)"
      using row_cases [OF assms(1)] assms(2) w(1) eq
      by (auto simp add: lut_read_write_slot)
    have "lut_read row col (rte_setup_loop p (index + 1) ?s') =
        (if index + 1 \<le> uint col then debug_handler_addr p else lut_read row col ?s')"
      using "1.IH" [OF True] "1.prems" by simp
    hence "lut_read row col (rte_setup_loop p (index + 1) ?s') =
        (if index \<le> uint col then debug_handler_addr p else lut_read row col s)"
      using step by auto
    thus ?thesis using True by (subst rte_setup_loop.simps) simp
  next
    case False
    thus ?thesis using c by (subst rte_setup_loop.simps) simp
  qed
qed

text \<open>
  Claim C8. On every core, setup writes zero to the interrupt-enable register \<^verbatim>\<open>mie\<close> and
  the address of the first-level handler, with its two lowest bits cleared, to the
  trap-base register \<^verbatim>\<open>mtvec\<close>; the routine is aligned to four bytes, and for an
  aligned address that is the address itself. On the core whose \<^verbatim>\<open>mhartid\<close> reads zero,
  each of the 64 slots of the vector table (both directions, all 32 indices) holds the
  address of the debug handler afterwards. On any other core the table is not touched.
\<close>

theorem rte_setup_result:
  "csrs (neorv32_rte_setup p s) CSR_MIE = 0
   \<and> csrs (neorv32_rte_setup p s) CSR_MTVEC = rte_core_addr p AND 0xfffffffc
   \<and> (rte_core_addr p AND 3 = 0 \<longrightarrow> csrs (neorv32_rte_setup p s) CSR_MTVEC = rte_core_addr p)
   \<and> (csrs s CSR_MHARTID = 0 \<longrightarrow>
        (\<forall>row col. row < 2 \<longrightarrow> col < 32 \<longrightarrow>
           lut_read row col (neorv32_rte_setup p s) = debug_handler_addr p))
   \<and> (csrs s CSR_MHARTID \<noteq> 0 \<longrightarrow> vector_lut (neorv32_rte_setup p s) = vector_lut s)"
proof -
  let ?s3 = "neorv32_cpu_csr_write CSR_MIE 0
     (neorv32_cpu_csr_write CSR_MTVEC (rte_core_addr p AND 0xfffffffc)
       (neorv32_cpu_csr_write CSR_MSTATUS
         (push_bit (mstatus_mpp_h p) 1 OR push_bit (mstatus_mpp_l p) 1) s))"
  have s3: "csrs ?s3 CSR_MIE = 0" "csrs ?s3 CSR_MTVEC = rte_core_addr p AND 0xfffffffc"
    "csrs ?s3 CSR_MHARTID = csrs s CSR_MHARTID" "vector_lut ?s3 = vector_lut s"
    by (simp_all add: neorv32_cpu_csr_write_def)
  have r: "neorv32_rte_setup p s =
      (if csrs s CSR_MHARTID = 0 then rte_setup_loop p 0 ?s3 else ?s3)"
    using s3(3) by (simp add: neorv32_rte_setup_def Let_def fence_def neorv32_cpu_csr_read_def)
  have mie: "csrs (neorv32_rte_setup p s) CSR_MIE = 0"
    using s3(1) by (simp add: r rte_setup_loop_csrs)
  have mtvec: "csrs (neorv32_rte_setup p s) CSR_MTVEC = rte_core_addr p AND 0xfffffffc"
    using s3(2) by (simp add: r rte_setup_loop_csrs)
  have al: "rte_core_addr p AND 3 = 0 \<Longrightarrow> rte_core_addr p AND 0xfffffffc = rte_core_addr p"
    by (rule aligned_and)
  have tab: "csrs s CSR_MHARTID = 0 \<Longrightarrow> row < 2 \<Longrightarrow> col < 32 \<Longrightarrow>
      lut_read row col (neorv32_rte_setup p s) = debug_handler_addr p" for row col
  proof -
    assume h: "csrs s CSR_MHARTID = 0" and rc: "row < 2" "col < 32"
    have "0 \<le> uint col" by simp
    thus ?thesis using rte_setup_loop_lut [OF rc, of 0 p ?s3] h by (simp add: r)
  qed
  have other: "csrs s CSR_MHARTID \<noteq> 0 \<Longrightarrow> vector_lut (neorv32_rte_setup p s) = vector_lut s"
    using s3(4) by (simp add: r)
  from mie mtvec al tab other show ?thesis by (simp only:) blast
qed

theorem rte_setup_result_witness:
  "rte_core_addr ex_platform AND 3 = 0
   \<and> csrs (ex_state 0 0) CSR_MHARTID = 0 \<and> (1 :: u32) < 2 \<and> (7 :: u32) < 32
   \<and> csrs (neorv32_rte_setup ex_platform (ex_state 0 0)) CSR_MIE = 0
   \<and> csrs (neorv32_rte_setup ex_platform (ex_state 0 0)) CSR_MTVEC = 0x200
   \<and> lut_read 1 7 (neorv32_rte_setup ex_platform (ex_state 0 0)) = 0x400
   \<and> csrs (neorv32_cpu_csr_write CSR_MHARTID 1 (ex_state 0 0)) CSR_MHARTID \<noteq> 0
   \<and> vector_lut (neorv32_rte_setup ex_platform (neorv32_cpu_csr_write CSR_MHARTID 1 (ex_state 0 0)))
       = vector_lut (neorv32_cpu_csr_write CSR_MHARTID 1 (ex_state 0 0))"
proof -
  have a: "rte_core_addr ex_platform AND 3 = 0" "rte_core_addr ex_platform = 0x200"
    "debug_handler_addr ex_platform = 0x400"
    by (simp_all add: ex_platform_def)
  have h: "csrs (ex_state 0 0) CSR_MHARTID = 0"
    by (simp add: ex_state_def)
  have h1: "csrs (neorv32_cpu_csr_write CSR_MHARTID 1 (ex_state 0 0)) CSR_MHARTID \<noteq> 0"
    by (simp add: neorv32_cpu_csr_write_def)
  have rc: "(1 :: u32) < 2" "(7 :: u32) < 32"
    by simp_all
  note t = rte_setup_result [of ex_platform "ex_state 0 0"]
  note t1 = rte_setup_result [of ex_platform "neorv32_cpu_csr_write CSR_MHARTID 1 (ex_state 0 0)"]
  from t have mie: "csrs (neorv32_rte_setup ex_platform (ex_state 0 0)) CSR_MIE = 0"
    by blast
  from t a have mtvec: "csrs (neorv32_rte_setup ex_platform (ex_state 0 0)) CSR_MTVEC = 0x200"
    by simp
  from t h rc a(3) have slot: "lut_read 1 7 (neorv32_rte_setup ex_platform (ex_state 0 0)) = 0x400"
    by simp
  from t1 h1 have other:
    "vector_lut (neorv32_rte_setup ex_platform (neorv32_cpu_csr_write CSR_MHARTID 1 (ex_state 0 0)))
       = vector_lut (neorv32_cpu_csr_write CSR_MHARTID 1 (ex_state 0 0))"
    by blast
  from a(1) h rc mie mtvec slot h1 other show ?thesis
    by blast
qed

subsection \<open>The debug handler with UART0\<close>

text \<open>The halt loop does not return.\<close>

lemma wfi_loop_never_returns: "wfi_loop s = None"
proof (cases "wfi_loop s")
  case None
  thus ?thesis .
next
  case (Some y)
  have "False"
  proof (rule wfi_loop.raw_induct [where P = "\<lambda>_ _. False"])
    show "wfi_loop s = Some y" by (rule Some)
  next
    fix f :: "rte_state \<Rightarrow> rte_state option" and t u
    assume "\<And>x y. f x = Some y \<Longrightarrow> False" and "f (wfi t) = Some u"
    thus False by blast
  qed
  thus ?thesis ..
qed

text \<open>Printing changes the record of UART0 calls only.\<close>

lemma only_uart0_refl: "only_uart0 s s"
  by (simp add: only_uart0_def)

lemma only_uart0_putc: "only_uart0 s (neorv32_uart0_putc c t) \<longleftrightarrow> only_uart0 s t"
  by (simp add: only_uart0_def neorv32_uart0_putc_def)

lemma only_uart0_puts: "only_uart0 s (neorv32_uart0_puts str t) \<longleftrightarrow> only_uart0 s t"
  by (simp add: only_uart0_def neorv32_uart0_puts_def)

lemma only_uart0_print_hex_loop:
  "only_uart0 s (print_hex_loop p num i t) \<longleftrightarrow> only_uart0 s t"
proof (induction p num i t rule: print_hex_loop.induct)
  case (1 p num i t)
  show ?case
  proof (cases "i < 8")
    case True
    have "print_hex_loop p num i t =
        print_hex_loop p num (i + 1) (neorv32_uart0_putc (print_hex_char p num (28 - 4 * i)) t)"
      using True by (subst print_hex_loop.simps) simp
    thus ?thesis using 1 [OF True] by (simp add: only_uart0_putc)
  next
    case False
    hence "print_hex_loop p num i t = t" by (subst print_hex_loop.simps) simp
    thus ?thesis by simp
  qed
qed

lemma only_uart0_print_hex:
  "only_uart0 s (print_hex p num digits t) \<longleftrightarrow> only_uart0 s t"
  by (simp add: print_hex_def only_uart0_print_hex_loop only_uart0_putc)

lemma only_uart0_cause:
  "only_uart0 s (debug_handler_cause p trap_cause t) \<longleftrightarrow> only_uart0 s t"
  by (simp add: debug_handler_cause_def Let_def only_uart0_puts only_uart0_print_hex)

lemma only_uart0_intro: "only_uart0 s (debug_handler_intro p t) \<longleftrightarrow> only_uart0 s t"
  by (simp add: debug_handler_intro_def Let_def only_uart0_puts)

lemma only_uart0_info:
  "only_uart0 s (debug_handler_info p trap_cause t) \<longleftrightarrow> only_uart0 s t"
  by (simp add: debug_handler_info_def Let_def only_uart0_puts only_uart0_print_hex
      only_uart0_cause)

lemma only_uart0_report:
  "only_uart0 s (debug_handler_info p trap_cause (debug_handler_intro p s))"
  by (simp add: only_uart0_info only_uart0_intro only_uart0_refl)

lemma debug_handler_body_uart:
  assumes "uart0_available p \<noteq> 0"
  shows "debug_handler_body p s =
    (let trap_cause = csrs s CSR_MCAUSE;
         s2 = debug_handler_info p trap_cause (debug_handler_intro p s);
         s3 = (if sint trap_cause < 0
               then neorv32_cpu_csr_clr CSR_MIE (push_bit (unat (trap_cause AND 0x1f)) 1)
                      (neorv32_uart0_puts '' Disabling IRQ source'' s2)
               else s2)
     in if is_fatal p trap_cause
        then (neorv32_cpu_csr_write CSR_MIE 0
                (neorv32_uart0_puts ('' !!FATAL EXCEPTION!! Halting CPU </NEORV32-RTE>'' @ [CHR 0x0A]) s3),
              True)
        else (neorv32_uart0_puts ('' </NEORV32-RTE>'' @ [CHR 0x0A]) s3, False))"
proof -
  have "only_uart0 s (debug_handler_intro p s)"
    by (simp add: only_uart0_intro only_uart0_refl)
  hence "neorv32_cpu_csr_read CSR_MCAUSE (debug_handler_intro p s) = csrs s CSR_MCAUSE"
    by (simp add: only_uart0_def neorv32_cpu_csr_read_def)
  thus ?thesis using assms by (simp add: debug_handler_body_def Let_def)
qed

lemma bit_clear_one:
  fixes a :: u32
  assumes "k < 32"
  shows "bit (a AND NOT (push_bit k 1)) n \<longleftrightarrow> bit a n \<and> n \<noteq> k"
  using assms by (auto simp add: bit_simps simp del: push_bit_of_1 dest: bit_imp_le_length)

lemma unat_and_31_less: "unat ((w :: u32) AND 31) < 32"
  using and_31_less [of w] by (simp add: word_less_nat_alt)

text \<open>
  Claim C4, amended. When UART0 is available and the trap cause is one of the fetch
  (instruction access) fault, the misaligned fetch and the double trap, the debug handler
  writes zero to the interrupt-enable register \<^verbatim>\<open>mie\<close>, enters the halt loop with that
  value in place, and does not return to its caller. Without UART0 the handler returns
  before it looks at the cause (see the counterexample below), so the claim does not hold
  for every invocation.
\<close>

theorem debug_handler_fatal:
  assumes "uart0_available p \<noteq> 0" and "is_fatal p (csrs s CSR_MCAUSE)"
  shows "neorv32_rte_debug_handler p s = None
     \<and> snd (debug_handler_body p s)
     \<and> csrs (fst (debug_handler_body p s)) CSR_MIE = 0"
proof -
  obtain t where t: "debug_handler_body p s = (neorv32_cpu_csr_write CSR_MIE 0 t, True)"
    using assms(2) by (simp add: debug_handler_body_uart [OF assms(1)] Let_def)
  have "neorv32_rte_debug_handler p s = wfi_loop (neorv32_cpu_csr_write CSR_MIE 0 t)"
    by (simp add: neorv32_rte_debug_handler_def t)
  hence "neorv32_rte_debug_handler p s = None"
    by (simp only: wfi_loop_never_returns)
  moreover have "csrs (fst (debug_handler_body p s)) CSR_MIE = 0"
    by (simp add: t neorv32_cpu_csr_write_def)
  ultimately show ?thesis by (simp add: t)
qed

theorem debug_handler_fatal_witness:
  "uart0_available ex_platform \<noteq> 0
   \<and> is_fatal ex_platform (csrs (ex_state 1 0) CSR_MCAUSE)
   \<and> neorv32_rte_debug_handler ex_platform (ex_state 1 0) = None
   \<and> snd (debug_handler_body ex_platform (ex_state 1 0))
   \<and> csrs (fst (debug_handler_body ex_platform (ex_state 1 0))) CSR_MIE = 0"
proof -
  have u: "uart0_available ex_platform \<noteq> 0"
    by (simp add: ex_platform_def)
  have f: "is_fatal ex_platform (csrs (ex_state 1 0) CSR_MCAUSE)"
    by (simp add: is_fatal_def ex_platform_def ex_state_def)
  from u f debug_handler_fatal [OF u f] show ?thesis
    by blast
qed

theorem debug_handler_fatal_counterexample:
  "is_fatal ex_platform_no_uart (csrs (ex_state 1 0) CSR_MCAUSE)
   \<and> neorv32_rte_debug_handler ex_platform_no_uart (ex_state 1 0) = Some (ex_state 1 0)
   \<and> csrs (ex_state 1 0) CSR_MIE = 0xffffffff"
  by (simp add: is_fatal_def ex_platform_no_uart_def ex_platform_def ex_state_def
      neorv32_rte_debug_handler_def debug_handler_body_def)

text \<open>
  Claim C5, amended. When UART0 is available and bit 31 of the trap cause is set, the
  debug handler returns with exactly one bit of \<^verbatim>\<open>mie\<close> cleared, the bit whose position
  is the 5-bit index of the cause; every other bit of \<^verbatim>\<open>mie\<close>, every other control
  register, the vector table, the memory and the registers are unchanged. The three fatal
  codes are exception codes, with bit 31 clear, so an interrupt cause is never one of
  them. Without UART0 the handler returns before it clears anything (see the
  counterexample below), so the claim does not hold for every invocation.
\<close>

theorem debug_handler_irq_disable:
  assumes "uart0_available p \<noteq> 0"
    and "bit (csrs s CSR_MCAUSE) 31"
    and "\<not> bit (trap_code_val p TRAP_CODE_I_ACCESS) 31"
    and "\<not> bit (trap_code_val p TRAP_CODE_I_MISALIGNED) 31"
    and "\<not> bit (trap_code_val p TRAP_CODE_DOUBLE_TRAP) 31"
  shows "\<exists>t. neorv32_rte_debug_handler p s = Some t
     \<and> csrs t = (csrs s)(CSR_MIE :=
          csrs s CSR_MIE AND NOT (push_bit (unat (csrs s CSR_MCAUSE AND 31)) 1))
     \<and> (\<forall>n. bit (csrs t CSR_MIE) n \<longleftrightarrow>
            bit (csrs s CSR_MIE) n \<and> n \<noteq> unat (csrs s CSR_MCAUSE AND 31))
     \<and> vector_lut t = vector_lut s \<and> mem t = mem s \<and> xreg t = xreg s"
proof -
  let ?c = "csrs s CSR_MCAUSE"
  let ?r = "debug_handler_info p ?c (debug_handler_intro p s)"
  let ?m = "push_bit (unat (?c AND 31)) 1 :: u32"
  let ?t = "neorv32_uart0_puts ('' </NEORV32-RTE>'' @ [CHR 0x0A])
      (neorv32_cpu_csr_clr CSR_MIE ?m (neorv32_uart0_puts '' Disabling IRQ source'' ?r))"
  have neg: "sint ?c < 0"
    using assms(2) bit_last_iff [of ?c] by simp
  have nf: "\<not> is_fatal p ?c"
    using assms(2-5) by (auto simp add: is_fatal_def)
  have body: "debug_handler_body p s = (?t, False)"
    using neg nf by (simp add: debug_handler_body_uart [OF assms(1)] Let_def)
  have ret: "neorv32_rte_debug_handler p s = Some ?t"
    by (simp add: neorv32_rte_debug_handler_def body)
  have r: "csrs ?r = csrs s" "vector_lut ?r = vector_lut s" "mem ?r = mem s" "xreg ?r = xreg s"
    using only_uart0_report [of s p ?c] by (simp_all add: only_uart0_def)
  have c: "csrs ?t = (csrs s)(CSR_MIE := csrs s CSR_MIE AND NOT ?m)"
    by (simp add: neorv32_uart0_puts_def neorv32_cpu_csr_clr_def r)
  have rest: "vector_lut ?t = vector_lut s \<and> mem ?t = mem s \<and> xreg ?t = xreg s"
    by (simp add: neorv32_uart0_puts_def neorv32_cpu_csr_clr_def r)
  have bits: "\<forall>n. bit (csrs ?t CSR_MIE) n \<longleftrightarrow>
            bit (csrs s CSR_MIE) n \<and> n \<noteq> unat (?c AND 31)"
    by (simp only: c fun_upd_same bit_clear_one [OF unat_and_31_less]) simp
  from ret c bits rest show ?thesis by blast
qed

theorem debug_handler_irq_disable_witness:
  "uart0_available ex_platform \<noteq> 0
   \<and> bit (csrs (ex_state 0x80000007 0) CSR_MCAUSE) 31
   \<and> \<not> bit (trap_code_val ex_platform TRAP_CODE_I_ACCESS) 31
   \<and> \<not> bit (trap_code_val ex_platform TRAP_CODE_I_MISALIGNED) 31
   \<and> \<not> bit (trap_code_val ex_platform TRAP_CODE_DOUBLE_TRAP) 31
   \<and> map_option (\<lambda>t. csrs t CSR_MIE)
         (neorv32_rte_debug_handler ex_platform (ex_state 0x80000007 0)) = Some 0xffffff7f"
proof -
  have u: "uart0_available ex_platform \<noteq> 0"
    by (simp add: ex_platform_def)
  have i: "bit (csrs (ex_state 0x80000007 0) CSR_MCAUSE) 31"
    by (simp add: ex_state_def)
  have e: "\<not> bit (trap_code_val ex_platform TRAP_CODE_I_ACCESS) 31"
    "\<not> bit (trap_code_val ex_platform TRAP_CODE_I_MISALIGNED) 31"
    "\<not> bit (trap_code_val ex_platform TRAP_CODE_DOUBLE_TRAP) 31"
    by (simp_all add: ex_platform_def)
  have m: "csrs (ex_state 0x80000007 0) CSR_MIE
      AND NOT (push_bit (unat (csrs (ex_state 0x80000007 0) CSR_MCAUSE AND 31)) 1) = 0xffffff7f"
    by (simp add: ex_state_def)
  from debug_handler_irq_disable [OF u i e]
  obtain t where t: "neorv32_rte_debug_handler ex_platform (ex_state 0x80000007 0) = Some t"
    and c: "csrs t = (csrs (ex_state 0x80000007 0))(CSR_MIE :=
          csrs (ex_state 0x80000007 0) CSR_MIE
            AND NOT (push_bit (unat (csrs (ex_state 0x80000007 0) CSR_MCAUSE AND 31)) 1))"
    by blast
  have "csrs t CSR_MIE = 0xffffff7f"
    by (simp only: c fun_upd_same m)
  with t u i e show ?thesis by simp
qed

theorem debug_handler_irq_disable_counterexample:
  "bit (csrs (ex_state 0x8000000b 0) CSR_MCAUSE) 31
   \<and> unat (csrs (ex_state 0x8000000b 0) CSR_MCAUSE AND 31) = 11
   \<and> neorv32_rte_debug_handler ex_platform_no_uart (ex_state 0x8000000b 0)
       = Some (ex_state 0x8000000b 0)
   \<and> bit (csrs (ex_state 0x8000000b 0) CSR_MIE) 11"
  by (simp add: ex_platform_no_uart_def ex_platform_def ex_state_def
      neorv32_rte_debug_handler_def debug_handler_body_def)

subsection \<open>The first-level trap handler\<close>

text \<open>What each part of the routine changes.\<close>

lemma sw_fields:
  "csrs (sw r k t) = csrs t" "vector_lut (sw r k t) = vector_lut t" "xreg (sw r k t) = xreg t"
  "uart0_out (sw r k t) = uart0_out t"
  "mem (sw r k t) = (mem t)(reg_read t 2 + 4 * of_nat k := reg_read t r)"
  by (simp_all add: sw_def neorv32_cpu_store_unsigned_word_def)

lemma lw_fields:
  "csrs (lw r k t) = csrs t" "vector_lut (lw r k t) = vector_lut t" "mem (lw r k t) = mem t"
  "uart0_out (lw r k t) = uart0_out t"
  "xreg (lw r k t) = (if r = 0 then xreg t else (xreg t)(r := mem t (reg_read t 2 + 4 * of_nat k)))"
  by (simp_all add: lw_def reg_write_def neorv32_cpu_load_unsigned_word_def)

lemma reg_read_sw: "reg_read (sw r k t) j = reg_read t j"
  by (simp add: reg_read_def sw_fields)

lemma foldl_sw_fields:
  "csrs (foldl (\<lambda>t r. sw r r t) t rs) = csrs t
   \<and> vector_lut (foldl (\<lambda>t r. sw r r t) t rs) = vector_lut t
   \<and> xreg (foldl (\<lambda>t r. sw r r t) t rs) = xreg t
   \<and> uart0_out (foldl (\<lambda>t r. sw r r t) t rs) = uart0_out t"
  by (induction rs arbitrary: t) (simp_all add: sw_fields)

lemma foldl_lw_fields:
  "csrs (foldl (\<lambda>t r. lw r r t) t rs) = csrs t
   \<and> vector_lut (foldl (\<lambda>t r. lw r r t) t rs) = vector_lut t
   \<and> mem (foldl (\<lambda>t r. lw r r t) t rs) = mem t
   \<and> uart0_out (foldl (\<lambda>t r. lw r r t) t rs) = uart0_out t"
  by (induction rs arbitrary: t) (simp_all add: lw_fields)

lemma rte_core_save_fields:
  "csrs (rte_core_save p s) = (csrs s)(CSR_MSCRATCH := reg_read s 2 - 4 * of_nat (frame_regs p))"
  "vector_lut (rte_core_save p s) = vector_lut s"
  "uart0_out (rte_core_save p s) = uart0_out s"
  "xreg (rte_core_save p s) = (xreg s)(2 := reg_read s 2 - 4 * of_nat (frame_regs p), 1 := reg_read s 2)"
  by (simp_all add: rte_core_save_def Let_def foldl_sw_fields sw_fields csrw_def csrrw_def
      addi_def reg_write_def reg_read_def neorv32_cpu_csr_write_def neorv32_cpu_csr_read_def)

lemma rte_core_restore_fields:
  "csrs (rte_core_restore p t) = csrs t"
  "vector_lut (rte_core_restore p t) = vector_lut t"
  "mem (rte_core_restore p t) = mem t"
  "uart0_out (rte_core_restore p t) = uart0_out t"
  by (simp_all add: rte_core_restore_def Let_def foldl_lw_fields lw_fields)

lemma rte_core_fixup_fields:
  "csrs (rte_core_fixup p mcause t) =
     (if drop_bit 31 mcause = 0 \<and> mcause \<noteq> trap_code_val p TRAP_CODE_I_ACCESS
      then (csrs t)(CSR_MEPC := csrs t CSR_MEPC
                     + (if riscv_c p \<and> csrs t CSR_MTINST AND 3 \<noteq> 3 then 2 else 4))
      else csrs t)"
  "vector_lut (rte_core_fixup p mcause t) = vector_lut t"
  "mem (rte_core_fixup p mcause t) = mem t"
  "xreg (rte_core_fixup p mcause t) = xreg t"
  "uart0_out (rte_core_fixup p mcause t) = uart0_out t"
  by (simp_all add: rte_core_fixup_def Let_def neorv32_cpu_csr_write_def neorv32_cpu_csr_read_def
      add.commute)

lemma rte_core_unfold:
  "neorv32_rte_core p H s =
     map_option (\<lambda>s2. rte_core_restore p (rte_core_fixup p (csrs s CSR_MCAUSE) s2))
       (rte_core_call H (rte_core_lookup (csrs s CSR_MCAUSE) s) (rte_core_save p s))"
proof -
  have c: "neorv32_cpu_csr_read CSR_MCAUSE (rte_core_save p s) = csrs s CSR_MCAUSE"
    by (simp add: neorv32_cpu_csr_read_def rte_core_save_fields)
  have l: "rte_core_lookup m (rte_core_save p s) = rte_core_lookup m s" for m
    by (simp add: rte_core_lookup_def lut_read_def rte_core_save_fields)
  show ?thesis
    by (simp add: neorv32_rte_core_def Let_def fence_def c l split: option.split)
qed

text \<open>
  Claim C1, amended. Let the second-level handler, or nothing when the slot is null,
  return in the state \<open>s2\<close>. Then the first-level handler returns, and the resume address
  \<^verbatim>\<open>mepc\<close> it leaves is: for a cause with direction exception (bit 31 clear) other than
  the fetch (instruction access) fault, the resume address as the second-level handler
  left it, plus 4, or plus 2 when compressed instructions are supported and the two lowest
  bits of \<^verbatim>\<open>mtinst\<close>, as the handler left it, are not both set; for the fetch fault and
  for every interrupt, the resume address as the second-level handler left it, unchanged.
  When the second-level handler has not written \<^verbatim>\<open>mepc\<close> and \<^verbatim>\<open>mtinst\<close>, which is
  always so for a null slot, this is the pre-trap resume address plus 4, plus 2, or
  unchanged. The cause is the one read before the second-level handler ran. The routine
  calls the second-level handler before it reads \<^verbatim>\<open>mepc\<close>, so a handler that writes the
  resume address moves the result with it (see the counterexample below): the pre-trap
  address is not what the adjustment is applied to in every dispatch.
\<close>

theorem rte_core_resume_address:
  assumes "rte_core_call H (rte_core_lookup (csrs s CSR_MCAUSE) s) (rte_core_save p s) = Some s2"
  shows "\<exists>s'. neorv32_rte_core p H s = Some s'
     \<and> csrs s' CSR_MEPC =
         (if drop_bit 31 (csrs s CSR_MCAUSE) = 0
             \<and> csrs s CSR_MCAUSE \<noteq> trap_code_val p TRAP_CODE_I_ACCESS
          then csrs s2 CSR_MEPC + (if riscv_c p \<and> csrs s2 CSR_MTINST AND 3 \<noteq> 3 then 2 else 4)
          else csrs s2 CSR_MEPC)
     \<and> (csrs s2 CSR_MEPC = csrs s CSR_MEPC \<and> csrs s2 CSR_MTINST = csrs s CSR_MTINST \<longrightarrow>
          csrs s' CSR_MEPC =
           (if drop_bit 31 (csrs s CSR_MCAUSE) = 0
               \<and> csrs s CSR_MCAUSE \<noteq> trap_code_val p TRAP_CODE_I_ACCESS
            then csrs s CSR_MEPC + (if riscv_c p \<and> csrs s CSR_MTINST AND 3 \<noteq> 3 then 2 else 4)
            else csrs s CSR_MEPC))"
proof -
  let ?s' = "rte_core_restore p (rte_core_fixup p (csrs s CSR_MCAUSE) s2)"
  have r: "neorv32_rte_core p H s = Some ?s'"
    by (simp add: rte_core_unfold assms)
  have m: "csrs ?s' CSR_MEPC =
         (if drop_bit 31 (csrs s CSR_MCAUSE) = 0
             \<and> csrs s CSR_MCAUSE \<noteq> trap_code_val p TRAP_CODE_I_ACCESS
          then csrs s2 CSR_MEPC + (if riscv_c p \<and> csrs s2 CSR_MTINST AND 3 \<noteq> 3 then 2 else 4)
          else csrs s2 CSR_MEPC)"
    by (simp add: rte_core_restore_fields rte_core_fixup_fields)
  from r m show ?thesis by (intro exI [of _ ?s']) (simp only:, simp)
qed

theorem rte_core_resume_address_witness:
  "rte_core_call ex_handlers_redirect
       (rte_core_lookup (csrs (ex_state_installed 2 0x13) CSR_MCAUSE) (ex_state_installed 2 0x13))
       (rte_core_save ex_platform (ex_state_installed 2 0x13))
     = Some (neorv32_cpu_csr_write CSR_MEPC 0x2000
               (rte_core_save ex_platform (ex_state_installed 2 0x13)))
   \<and> rte_core_mepc ex_platform ex_handlers_redirect (ex_state_installed 2 0x13) = Some 0x2004
   \<and> rte_core_call ex_handlers_return
       (rte_core_lookup (csrs (ex_state_installed 2 0x13) CSR_MCAUSE) (ex_state_installed 2 0x13))
       (rte_core_save ex_platform (ex_state_installed 2 0x13))
     = Some (rte_core_save ex_platform (ex_state_installed 2 0x13))
   \<and> csrs (rte_core_save ex_platform (ex_state_installed 2 0x13)) CSR_MEPC
       = csrs (ex_state_installed 2 0x13) CSR_MEPC
   \<and> csrs (rte_core_save ex_platform (ex_state_installed 2 0x13)) CSR_MTINST
       = csrs (ex_state_installed 2 0x13) CSR_MTINST
   \<and> rte_core_mepc ex_platform ex_handlers_return (ex_state_installed 2 0x13) = Some 0x1004
   \<and> rte_core_mepc ex_platform ex_handlers_return (ex_state_installed 2 0x4501) = Some 0x1002
   \<and> rte_core_mepc ex_platform ex_handlers_return (ex_state_installed 1 0x13) = Some 0x1000
   \<and> rte_core_mepc ex_platform ex_handlers_return (ex_state_installed 0x80000007 0x13)
       = Some 0x1000"
proof -
  have look: "rte_core_lookup (csrs (ex_state_installed c i) CSR_MCAUSE) (ex_state_installed c i)
      = 0x400" for c i
    by (simp add: ex_state_installed_def ex_state_def rte_core_lookup_def lut_write_def
        lut_read_def)
  have st: "csrs (ex_state_installed c i) CSR_MCAUSE = c"
    "csrs (ex_state_installed c i) CSR_MEPC = 0x1000"
    "csrs (ex_state_installed c i) CSR_MTINST = i" for c i
    by (simp_all add: ex_state_installed_def ex_state_def lut_write_def)
  have pf: "riscv_c ex_platform" "trap_code_val ex_platform TRAP_CODE_I_ACCESS = 1"
    by (simp_all add: ex_platform_def)
  have call_r: "rte_core_call ex_handlers_return
       (rte_core_lookup (csrs (ex_state_installed c i) CSR_MCAUSE) (ex_state_installed c i))
       (rte_core_save ex_platform (ex_state_installed c i))
     = Some (rte_core_save ex_platform (ex_state_installed c i))" for c i
    by (simp add: look rte_core_call_def ex_handlers_return_def)
  have call_d: "rte_core_call ex_handlers_redirect
       (rte_core_lookup (csrs (ex_state_installed c i) CSR_MCAUSE) (ex_state_installed c i))
       (rte_core_save ex_platform (ex_state_installed c i))
     = Some (neorv32_cpu_csr_write CSR_MEPC 0x2000
               (rte_core_save ex_platform (ex_state_installed c i)))" for c i
    by (simp add: look rte_core_call_def ex_handlers_redirect_def)
  have keep: "csrs (rte_core_save ex_platform s) CSR_MEPC = csrs s CSR_MEPC"
      "csrs (rte_core_save ex_platform s) CSR_MTINST = csrs s CSR_MTINST" for s
    by (simp_all add: rte_core_save_fields)
  have left: "csrs (neorv32_cpu_csr_write CSR_MEPC 0x2000 t) CSR_MEPC = 0x2000"
      "csrs (neorv32_cpu_csr_write CSR_MEPC 0x2000 t) CSR_MTINST = csrs t CSR_MTINST" for t
    by (simp_all add: neorv32_cpu_csr_write_def)
  have ret: "rte_core_mepc ex_platform ex_handlers_return (ex_state_installed c i) =
      Some (if drop_bit 31 c = 0 \<and> c \<noteq> 1
            then 0x1000 + (if i AND 3 \<noteq> 3 then 2 else 4) else 0x1000)" for c i
    using rte_core_resume_address [OF call_r [of c i]] keep [of "ex_state_installed c i"]
    by (auto simp add: rte_core_mepc_def st pf)
  have red: "rte_core_mepc ex_platform ex_handlers_redirect (ex_state_installed 2 0x13) = Some 0x2004"
    using rte_core_resume_address [OF call_d [of 2 "0x13"]]
    by (auto simp add: rte_core_mepc_def st pf left keep)
  have a: "rte_core_mepc ex_platform ex_handlers_return (ex_state_installed 2 0x13) = Some 0x1004"
    by (simp add: ret)
  have b: "rte_core_mepc ex_platform ex_handlers_return (ex_state_installed 2 0x4501) = Some 0x1002"
    by (simp add: ret)
  have c: "rte_core_mepc ex_platform ex_handlers_return (ex_state_installed 1 0x13) = Some 0x1000"
    by (simp add: ret)
  have d: "rte_core_mepc ex_platform ex_handlers_return (ex_state_installed 0x80000007 0x13)
      = Some 0x1000"
    by (simp add: ret)
  from call_d [of 2 "0x13"] red call_r [of 2 "0x13"] keep [of "ex_state_installed 2 0x13"] a b c d
  show ?thesis
    by (intro conjI)
qed

theorem rte_core_resume_address_counterexample:
  "rte_core_lookup (csrs (ex_state_installed 2 0x13) CSR_MCAUSE) (ex_state_installed 2 0x13) = 0x400
   \<and> drop_bit 31 (csrs (ex_state_installed 2 0x13) CSR_MCAUSE) = 0
   \<and> csrs (ex_state_installed 2 0x13) CSR_MCAUSE \<noteq> trap_code_val ex_platform TRAP_CODE_I_ACCESS
   \<and> csrs (ex_state_installed 2 0x13) CSR_MTINST AND 3 = 3
   \<and> csrs (ex_state_installed 2 0x13) CSR_MEPC + 4 = 0x1004
   \<and> rte_core_mepc ex_platform ex_handlers_redirect (ex_state_installed 2 0x13) = Some 0x2004
   \<and> rte_core_mepc ex_platform ex_handlers_redirect (ex_state_installed 2 0x13)
       \<noteq> Some (csrs (ex_state_installed 2 0x13) CSR_MEPC + 4)"
proof -
  let ?s = "ex_state_installed 2 0x13"
  have st: "csrs ?s CSR_MCAUSE = 2" "csrs ?s CSR_MEPC = 0x1000" "csrs ?s CSR_MTINST = 0x13"
    by (simp_all add: ex_state_installed_def ex_state_def lut_write_def)
  have look: "rte_core_lookup (csrs ?s CSR_MCAUSE) ?s = 0x400"
    by (simp add: ex_state_installed_def ex_state_def rte_core_lookup_def lut_write_def
        lut_read_def)
  have pf: "riscv_c ex_platform" "trap_code_val ex_platform TRAP_CODE_I_ACCESS = 1"
    by (simp_all add: ex_platform_def)
  have call: "rte_core_call ex_handlers_redirect (rte_core_lookup (csrs ?s CSR_MCAUSE) ?s)
      (rte_core_save ex_platform ?s)
      = Some (neorv32_cpu_csr_write CSR_MEPC 0x2000 (rte_core_save ex_platform ?s))"
    by (simp add: look rte_core_call_def ex_handlers_redirect_def)
  have core: "neorv32_rte_core ex_platform ex_handlers_redirect ?s =
      Some (rte_core_restore ex_platform (rte_core_fixup ex_platform (csrs ?s CSR_MCAUSE)
              (neorv32_cpu_csr_write CSR_MEPC 0x2000 (rte_core_save ex_platform ?s))))"
    by (simp only: rte_core_unfold call option.map)
  have "rte_core_mepc ex_platform ex_handlers_redirect ?s = Some 0x2004"
    by (simp add: rte_core_mepc_def core rte_core_restore_fields rte_core_fixup_fields
        neorv32_cpu_csr_write_def rte_core_save_fields st pf)
  with st pf look show ?thesis by simp
qed

text \<open>
  The frame: saving and restoring. Register \<open>k\<close> is saved at the frame base plus \<open>4 * k\<close>,
  the slots are pairwise distinct, and the restore reads each register back from its slot.
\<close>

lemma unat_frame_offset:
  assumes "k < 32"
  shows "unat (4 * of_nat k :: u32) = 4 * k"
proof -
  have k: "unat (of_nat k :: u32) = k"
    using assms by (simp add: unat_of_nat)
  have "unat (4 * of_nat k :: u32) = unat (4 :: u32) * unat (of_nat k :: u32)"
    using assms k by (subst unat_mult_lem [THEN iffD1]) simp_all
  thus ?thesis using k by simp
qed

lemma frame_slot_inj:
  fixes a :: u32
  assumes "k < 32" "r < 32"
  shows "a + 4 * of_nat k = a + 4 * of_nat r \<longleftrightarrow> k = r"
proof
  assume "a + 4 * of_nat k = a + 4 * of_nat r"
  hence "unat (4 * of_nat k :: u32) = unat (4 * of_nat r :: u32)" by simp
  thus "k = r" by (simp only: unat_frame_offset [OF assms(1)] unat_frame_offset [OF assms(2)])
next
  assume "k = r"
  thus "a + 4 * of_nat k = a + 4 * of_nat r" by simp
qed

lemma foldl_sw_mem:
  assumes "\<forall>r\<in>set rs. r < 32" "k < 32"
  shows "mem (foldl (\<lambda>t r. sw r r t) t rs) (reg_read t 2 + 4 * of_nat k) =
           (if k \<in> set rs then reg_read t k else mem t (reg_read t 2 + 4 * of_nat k))"
  using assms(1)
proof (induction rs arbitrary: t)
  case Nil
  show ?case by simp
next
  case (Cons r rs)
  have r: "r < 32" using Cons.prems by simp
  have "mem (foldl (\<lambda>t r. sw r r t) (sw r r t) rs) (reg_read (sw r r t) 2 + 4 * of_nat k) =
      (if k \<in> set rs then reg_read (sw r r t) k
       else mem (sw r r t) (reg_read (sw r r t) 2 + 4 * of_nat k))"
    using Cons.prems by (intro Cons.IH) simp
  thus ?case
    using frame_slot_inj [OF assms(2) r, of "reg_read t 2"]
    by (auto simp add: reg_read_sw sw_fields)
qed

lemma reg_read_lw_sp: "r \<noteq> 2 \<Longrightarrow> reg_read (lw r k t) 2 = reg_read t 2"
  by (simp add: reg_read_def lw_fields)

lemma foldl_lw_xreg:
  assumes "0 \<notin> set rs" "2 \<notin> set rs"
  shows "xreg (foldl (\<lambda>t r. lw r r t) t rs) j =
           (if j \<in> set rs then mem t (reg_read t 2 + 4 * of_nat j) else xreg t j)"
  using assms
proof (induction rs arbitrary: t)
  case Nil
  show ?case by simp
next
  case (Cons r rs)
  have r: "r \<noteq> 0" "r \<noteq> 2" using Cons.prems by auto
  have "xreg (foldl (\<lambda>t r. lw r r t) (lw r r t) rs) j =
      (if j \<in> set rs then mem (lw r r t) (reg_read (lw r r t) 2 + 4 * of_nat j)
       else xreg (lw r r t) j)"
    using Cons.prems by (intro Cons.IH) simp_all
  thus ?case
    using r by (auto simp add: reg_read_lw_sp lw_fields)
qed

lemma frame_regs_le: "frame_regs p \<le> 32" "3 \<le> frame_regs p"
  by (simp_all add: frame_regs_def)

text \<open>The frame the first block builds, at the frame base \<open>sp - 4 * frame_regs\<close>.\<close>

lemma rte_core_save_frame:
  assumes "k < frame_regs p"
  shows "mem (rte_core_save p s) (reg_read s 2 - 4 * of_nat (frame_regs p) + 4 * of_nat k) =
           (if k = 0 then 0 else if k = 2 then reg_read s 2 else xreg s k)"
proof -
  define fp where "fp = reg_read s 2 - 4 * of_nat (frame_regs p)"
  define s6 where "s6 = sw 1 2 (csrrw 1 CSR_MSCRATCH 2 (sw 1 1 (sw 0 0
               (addi 2 2 (- (4 * of_nat (frame_regs p))) (csrw CSR_MSCRATCH 2 s)))))"
  have k: "k < 32" using assms frame_regs_le(1) [of p] by simp
  have x6: "xreg s6 = (xreg s)(2 := fp, 1 := reg_read s 2)"
    by (simp add: s6_def fp_def sw_fields csrw_def csrrw_def addi_def reg_write_def reg_read_def
        neorv32_cpu_csr_write_def neorv32_cpu_csr_read_def)
  have sp6: "reg_read s6 2 = fp"
    by (simp add: reg_read_def x6)
  have m6: "mem s6 = (mem s)(fp := 0, fp + 4 := xreg s 1, fp + 8 := reg_read s 2)"
    by (simp add: s6_def fp_def sw_fields csrw_def csrrw_def addi_def reg_write_def reg_read_def
        neorv32_cpu_csr_write_def neorv32_cpu_csr_read_def)
  have low: "mem s6 (fp + 4 * of_nat k) =
      (if k = 0 then 0 else if k = 2 then reg_read s 2 else xreg s k)" if "k < 3"
  proof -
    from that have "k = 0 \<or> k = 1 \<or> k = 2" by arith
    thus ?thesis by (auto simp add: m6)
  qed
  have save: "rte_core_save p s = foldl (\<lambda>t r. sw r r t) s6 [3 ..< frame_regs p]"
    by (simp add: rte_core_save_def Let_def s6_def)
  have "mem (rte_core_save p s) (fp + 4 * of_nat k) =
      (if k \<in> set [3 ..< frame_regs p] then reg_read s6 k else mem s6 (fp + 4 * of_nat k))"
    using foldl_sw_mem [of "[3 ..< frame_regs p]" k s6] k frame_regs_le(1) [of p]
    by (simp add: save sp6)
  hence "mem (rte_core_save p s) (fp + 4 * of_nat k) =
      (if k = 0 then 0 else if k = 2 then reg_read s 2 else xreg s k)"
    using assms low by (auto simp add: reg_read_def x6)
  thus ?thesis by (simp only: fp_def)
qed

lemma rte_core_restore_xreg:
  "xreg (rte_core_restore p t) j =
     (if 0 < j \<and> j < frame_regs p then mem t (reg_read t 2 + 4 * of_nat j) else xreg t j)"
proof -
  define t1 where "t1 = lw 1 1 t"
  define t2 where "t2 = foldl (\<lambda>t r. lw r r t) t1 [3 ..< frame_regs p]"
  have sp1: "reg_read t1 2 = reg_read t 2"
    by (simp add: t1_def reg_read_lw_sp)
  have x1: "xreg t1 = (xreg t)(1 := mem t (reg_read t 2 + 4))"
    by (simp add: t1_def lw_fields)
  have m1: "mem t1 = mem t"
    by (simp add: t1_def lw_fields)
  have x2: "xreg t2 j =
      (if j \<in> set [3 ..< frame_regs p] then mem t (reg_read t 2 + 4 * of_nat j) else xreg t1 j)" for j
    using foldl_lw_xreg [of "[3 ..< frame_regs p]" t1 j] by (simp add: t2_def sp1 m1)
  have sp2: "reg_read t2 2 = reg_read t 2"
    using x2 [of 2] sp1 by (simp add: reg_read_def)
  have m2: "mem t2 = mem t"
    by (simp add: t2_def foldl_lw_fields m1)
  have "rte_core_restore p t = lw 2 2 t2"
    by (simp add: rte_core_restore_def Let_def t2_def t1_def)
  hence r: "xreg (rte_core_restore p t) j =
      (if j = 2 then mem t (reg_read t 2 + 4 * of_nat 2) else xreg t2 j)"
    by (simp add: lw_fields sp2 m2)
  consider "j = 0" | "j = 1" | "j = 2" | "3 \<le> j"
    by arith
  thus ?thesis
  proof cases
    case 1
    thus ?thesis using r x2 [of j] by (simp add: x1)
  next
    case 2
    thus ?thesis using r x2 [of j] frame_regs_le(2) [of p] by (simp add: x1)
  next
    case 3
    thus ?thesis using r frame_regs_le(2) [of p] by simp
  next
    case 4
    thus ?thesis using r x2 [of j] by (simp add: x1)
  qed
qed

lemma rte_core_restores_registers:
  "xreg (rte_core_restore p (rte_core_fixup p mcause (rte_core_save p s))) = xreg s"
proof
  fix j
  let ?t = "rte_core_fixup p mcause (rte_core_save p s)"
  let ?fp = "reg_read s 2 - 4 * of_nat (frame_regs p)"
  have sp: "reg_read ?t 2 = ?fp"
    by (simp add: reg_read_def rte_core_fixup_fields rte_core_save_fields)
  have x: "xreg ?t j = xreg s j" if "\<not> (0 < j \<and> j < frame_regs p)"
    using that frame_regs_le(2) [of p]
    by (auto simp add: rte_core_fixup_fields rte_core_save_fields)
  have m: "mem ?t (?fp + 4 * of_nat j) = xreg s j" if "0 < j" "j < frame_regs p"
    using that rte_core_save_frame [OF that(2), of s]
    by (auto simp add: rte_core_fixup_fields reg_read_def)
  show "xreg (rte_core_restore p ?t) j = xreg s j"
    using x m by (simp add: rte_core_restore_xreg sp)
qed

text \<open>
  Claim C7. When the slot selected by the trap cause holds zero, the first-level handler
  returns (the null entry is no error) in a state that does not depend on the second-level
  handlers at all: it is the state after the save, passed through the same resume-address
  fix-up and the same restore that the state returned by a second-level handler is passed
  through when the slot is not null. In that state every general-purpose register has its
  value from before the trap, \<^verbatim>\<open>mepc\<close> is advanced by 4 or 2 for an exception other than
  the fetch fault and unchanged otherwise, \<^verbatim>\<open>mscratch\<close> holds the frame base, and the
  other control registers, the vector table and the UART0 record are unchanged. On either
  path the restore loads each register from \<open>x1\<close> up to the last one of the register
  file from its slot in the frame at the stack pointer, and leaves \<open>x0\<close> alone.
\<close>

theorem rte_core_null_handler:
  assumes "rte_core_lookup (csrs s CSR_MCAUSE) s = 0"
  shows "neorv32_rte_core p H s =
           Some (rte_core_restore p (rte_core_fixup p (csrs s CSR_MCAUSE) (rte_core_save p s)))
     \<and> (\<exists>s'. neorv32_rte_core p H s = Some s'
           \<and> xreg s' = xreg s
           \<and> csrs s' = (csrs s)
                (CSR_MSCRATCH := reg_read s 2 - 4 * of_nat (frame_regs p),
                 CSR_MEPC :=
                   (if drop_bit 31 (csrs s CSR_MCAUSE) = 0
                       \<and> csrs s CSR_MCAUSE \<noteq> trap_code_val p TRAP_CODE_I_ACCESS
                    then csrs s CSR_MEPC
                         + (if riscv_c p \<and> csrs s CSR_MTINST AND 3 \<noteq> 3 then 2 else 4)
                    else csrs s CSR_MEPC))
           \<and> vector_lut s' = vector_lut s \<and> uart0_out s' = uart0_out s)
     \<and> (\<forall>H' u s2. csrs u CSR_MCAUSE = csrs s CSR_MCAUSE \<longrightarrow>
           rte_core_call H' (rte_core_lookup (csrs u CSR_MCAUSE) u) (rte_core_save p u) = Some s2 \<longrightarrow>
           neorv32_rte_core p H' u =
             Some (rte_core_restore p (rte_core_fixup p (csrs s CSR_MCAUSE) s2))
           \<and> (\<forall>j. xreg (rte_core_restore p (rte_core_fixup p (csrs s CSR_MCAUSE) s2)) j =
                  (if 0 < j \<and> j < frame_regs p
                   then mem s2 (reg_read s2 2 + 4 * of_nat j) else xreg s2 j)))"
proof -
  let ?s' = "rte_core_restore p (rte_core_fixup p (csrs s CSR_MCAUSE) (rte_core_save p s))"
  have r: "neorv32_rte_core p H s = Some ?s'"
    by (simp add: rte_core_unfold assms rte_core_call_def)
  have x: "xreg ?s' = xreg s"
    by (rule rte_core_restores_registers)
  have c: "csrs ?s' = (csrs s)
                (CSR_MSCRATCH := reg_read s 2 - 4 * of_nat (frame_regs p),
                 CSR_MEPC :=
                   (if drop_bit 31 (csrs s CSR_MCAUSE) = 0
                       \<and> csrs s CSR_MCAUSE \<noteq> trap_code_val p TRAP_CODE_I_ACCESS
                    then csrs s CSR_MEPC
                         + (if riscv_c p \<and> csrs s CSR_MTINST AND 3 \<noteq> 3 then 2 else 4)
                    else csrs s CSR_MEPC))"
    by (auto simp add: rte_core_restore_fields rte_core_fixup_fields rte_core_save_fields)
  have o: "vector_lut ?s' = vector_lut s \<and> uart0_out ?s' = uart0_out s"
    by (simp add: rte_core_restore_fields rte_core_fixup_fields rte_core_save_fields)
  have g: "\<forall>H' u s2. csrs u CSR_MCAUSE = csrs s CSR_MCAUSE \<longrightarrow>
           rte_core_call H' (rte_core_lookup (csrs u CSR_MCAUSE) u) (rte_core_save p u) = Some s2 \<longrightarrow>
           neorv32_rte_core p H' u =
             Some (rte_core_restore p (rte_core_fixup p (csrs s CSR_MCAUSE) s2))
           \<and> (\<forall>j. xreg (rte_core_restore p (rte_core_fixup p (csrs s CSR_MCAUSE) s2)) j =
                  (if 0 < j \<and> j < frame_regs p
                   then mem s2 (reg_read s2 2 + 4 * of_nat j) else xreg s2 j))"
    by (simp add: rte_core_unfold rte_core_restore_xreg rte_core_fixup_fields reg_read_def)
  from r x c o g show ?thesis by blast
qed

theorem rte_core_null_handler_witness:
  "rte_core_lookup (csrs (ex_state 2 0x13) CSR_MCAUSE) (ex_state 2 0x13) = 0
   \<and> neorv32_rte_core ex_platform (\<lambda>a t. None) (ex_state 2 0x13) \<noteq> None
   \<and> map_option xreg (neorv32_rte_core ex_platform (\<lambda>a t. None) (ex_state 2 0x13))
       = Some (xreg (ex_state 2 0x13))
   \<and> map_option (\<lambda>t. csrs t CSR_MEPC)
         (neorv32_rte_core ex_platform (\<lambda>a t. None) (ex_state 2 0x13)) = Some 0x1004
   \<and> csrs (lut_write 0 2 0x400 (ex_state 2 0x13)) CSR_MCAUSE = csrs (ex_state 2 0x13) CSR_MCAUSE
   \<and> rte_core_call (\<lambda>a t. Some t)
         (rte_core_lookup (csrs (lut_write 0 2 0x400 (ex_state 2 0x13)) CSR_MCAUSE)
            (lut_write 0 2 0x400 (ex_state 2 0x13)))
         (rte_core_save ex_platform (lut_write 0 2 0x400 (ex_state 2 0x13)))
       = Some (rte_core_save ex_platform (lut_write 0 2 0x400 (ex_state 2 0x13)))
   \<and> neorv32_rte_core ex_platform (\<lambda>a t. Some t) (lut_write 0 2 0x400 (ex_state 2 0x13))
       = Some (rte_core_restore ex_platform (rte_core_fixup ex_platform 2
                 (rte_core_save ex_platform (lut_write 0 2 0x400 (ex_state 2 0x13)))))"
proof -
  let ?s = "ex_state 2 0x13"
  let ?u = "lut_write 0 2 0x400 ?s"
  let ?N = "\<lambda>(a :: u32) (t :: rte_state). None :: rte_state option"
  let ?H = "\<lambda>(a :: u32) (t :: rte_state). Some t"
  have c: "csrs ?s CSR_MCAUSE = 2" "csrs ?s CSR_MEPC = 0x1000" "csrs ?s CSR_MTINST = 0x13"
    by (simp_all add: ex_state_def)
  have l: "rte_core_lookup (csrs ?s CSR_MCAUSE) ?s = 0"
    by (simp add: rte_core_lookup_def lut_read_def ex_state_def)
  have cu: "csrs ?u CSR_MCAUSE = csrs ?s CSR_MCAUSE"
    by (simp add: lut_write_def)
  have call: "rte_core_call ?H (rte_core_lookup (csrs ?u CSR_MCAUSE) ?u) (rte_core_save ex_platform ?u)
      = Some (rte_core_save ex_platform ?u)"
    by (simp add: rte_core_call_def)
  note t = rte_core_null_handler [OF l, of ex_platform ?N]
  from t have ret: "neorv32_rte_core ex_platform ?N ?s \<noteq> None"
    by simp
  from t obtain s' where s': "neorv32_rte_core ex_platform ?N ?s = Some s'"
    and x: "xreg s' = xreg ?s"
    and m: "csrs s' CSR_MEPC =
                   (if drop_bit 31 (csrs ?s CSR_MCAUSE) = 0
                       \<and> csrs ?s CSR_MCAUSE \<noteq> trap_code_val ex_platform TRAP_CODE_I_ACCESS
                    then csrs ?s CSR_MEPC
                         + (if riscv_c ex_platform \<and> csrs ?s CSR_MTINST AND 3 \<noteq> 3 then 2 else 4)
                    else csrs ?s CSR_MEPC)"
    by auto
  have m': "csrs s' CSR_MEPC = 0x1004"
    by (simp add: m c) (simp add: ex_platform_def)
  from t cu call have g: "neorv32_rte_core ex_platform ?H ?u
       = Some (rte_core_restore ex_platform (rte_core_fixup ex_platform (csrs ?s CSR_MCAUSE)
                 (rte_core_save ex_platform ?u)))"
    by blast
  from l ret s' x m' cu call g [unfolded c(1)] show ?thesis
    by (intro conjI) simp_all
qed

subsection \<open>The hexadecimal printer\<close>

text \<open>
  The loop emits one character for each shift amount it computes. It starts at
  \<open>digits - 8\<close>, so it runs \<open>16 - digits\<close> times and its first shift amount is
  \<open>60 - 4 * digits\<close>; only for \<open>digits = 8\<close> are these the eight amounts 28, 24, ..., 0.
\<close>

lemma print_hex_shifts_length: "length (print_hex_shifts i) = nat (8 - i)"
proof (induction i rule: print_hex_shifts.induct)
  case (1 i)
  show ?case
  proof (cases "i < 8")
    case True
    have "length (print_hex_shifts i) = Suc (length (print_hex_shifts (i + 1)))"
      using True by (subst print_hex_shifts.simps) simp
    thus ?thesis using 1 [OF True] True by simp
  next
    case False
    thus ?thesis by (subst print_hex_shifts.simps) simp
  qed
qed

lemma print_hex_loop_out:
  "uart0_out (print_hex_loop p num i s) =
     uart0_out s @ map (\<lambda>n. Putc (print_hex_char p num n)) (print_hex_shifts i)"
proof (induction p num i s rule: print_hex_loop.induct)
  case (1 p num i s)
  show ?case
  proof (cases "i < 8")
    case True
    have l: "print_hex_loop p num i s =
        print_hex_loop p num (i + 1) (neorv32_uart0_putc (print_hex_char p num (28 - 4 * i)) s)"
      using True by (subst print_hex_loop.simps) simp
    have h: "print_hex_shifts i = (28 - 4 * i) # print_hex_shifts (i + 1)"
      using True by (subst print_hex_shifts.simps) simp
    show ?thesis
      using 1 [OF True] by (simp add: l h neorv32_uart0_putc_def)
  next
    case False
    have l: "print_hex_loop p num i s = s"
      using False by (subst print_hex_loop.simps) simp
    have h: "print_hex_shifts i = []"
      using False by (subst print_hex_shifts.simps) simp
    show ?thesis by (simp add: l h)
  qed
qed

lemma print_hex_out:
  assumes "uart0_available p \<noteq> 0"
  shows "uart0_out (print_hex p num digits s) =
     uart0_out s @ [Putc CHR ''0'', Putc CHR ''x'']
       @ map (\<lambda>n. Putc (print_hex_char p num n)) (print_hex_shifts (digits - 8))"
  using assms by (simp add: print_hex_def print_hex_loop_out neorv32_uart0_putc_def)

lemma print_hex_count:
  assumes "uart0_available p \<noteq> 0"
  shows "length (uart0_out (print_hex p num digits s)) =
     length (uart0_out s) + 2 + nat (16 - digits)"
  using assms by (simp add: print_hex_out print_hex_shifts_length)

lemma print_hex_first_shift:
  assumes "digits < 16"
  shows "hd (print_hex_shifts (digits - 8)) = 60 - 4 * digits"
  using assms by (subst print_hex_shifts.simps) simp

lemma print_hex_shifts_8: "print_hex_shifts (8 - 8) = [28, 24, 20, 16, 12, 8, 4, 0]"
  by (simp add: print_hex_shifts.simps)

lemma print_hex_shifts_1:
  "print_hex_shifts (1 - 8) = [56, 52, 48, 44, 40, 36, 32, 28, 24, 20, 16, 12, 8, 4, 0]"
  by (simp add: print_hex_shifts.simps)

text \<open>
  Claim C10, which the code does not meet. The claim is that for \<open>digits\<close> from 0 to 8
  the printer emits exactly \<open>digits\<close> hexadecimal characters after the prefix \<^verbatim>\<open>0x\<close>, with
  every shift amount \<open>28 - 4*i\<close> between 0 and 31; the comment of the function promises
  the same number of characters. Called with \<open>digits = 1\<close>, as the debug handler calls it
  for a fast interrupt, the loop runs from \<open>i = -7\<close> to \<open>i = 7\<close>: the shift amounts are
  56, 52, ..., 0, seven of them above 31, and 15 characters follow the prefix. On the
  concrete platform, whose shift takes its amount modulo 32, they are the eight digits of
  the number preceded by its seven highest digits.
\<close>

theorem print_hex_one_digit:
  "uart0_available ex_platform \<noteq> 0
   \<and> print_hex_shifts (1 - 8) = [56, 52, 48, 44, 40, 36, 32, 28, 24, 20, 16, 12, 8, 4, 0]
   \<and> uart0_out (print_hex ex_platform 0x80000010 1 (ex_state 0x80000010 0))
       = [Putc CHR ''0'', Putc CHR ''x''] @ map Putc ''000001080000010''
   \<and> length (uart0_out (print_hex ex_platform 0x80000010 1 (ex_state 0x80000010 0))) = 2 + 15"
proof -
  have u: "uart0_available ex_platform \<noteq> 0"
    by (simp add: ex_platform_def)
  have o: "uart0_out (ex_state 0x80000010 0) = []"
    by (simp add: ex_state_def)
  have c: "map (\<lambda>n. Putc (print_hex_char ex_platform 0x80000010 n))
      [56, 52, 48, 44, 40, 36, 32, 28, 24, 20, 16, 12, 8, 4, 0] = map Putc ''000001080000010''"
    by (simp add: print_hex_char_def shr_u32_def ex_platform_def srl_rv32_def hex_symbols_def
        drop_bit_eq_div)
  have out: "uart0_out (print_hex ex_platform 0x80000010 1 (ex_state 0x80000010 0))
       = [Putc CHR ''0'', Putc CHR ''x''] @ map Putc ''000001080000010''"
    by (simp only: print_hex_out [OF u] print_hex_shifts_1 o c append_Nil)
  from u print_hex_shifts_1 out show ?thesis by simp
qed

end
